theory Spec2Isabelle
  imports Main
begin

section \<open>The store: DOM nodes, node lists and arrays\<close>

text \<open>
  JavaScript objects are referred to by reference. A \<open>ref\<close> is the address of an object in
  the store. Two kinds of objects matter to the tree comparator of \<^verbatim>\<open>fronty.js\<close>: DOM nodes
  (elements, text nodes and comment nodes) and list objects (the live \<^verbatim>\<open>childNodes\<close>
  \<^verbatim>\<open>NodeList\<close> of an element, and the JavaScript arrays the comparator allocates). Both kinds
  of lists live in the same component of the store, so that a write to an array that aliased a
  \<^verbatim>\<open>NodeList\<close> would be a write to the tree.

  An entry of a list is \<open>Some r\<close> for a reference and \<open>None\<close> for JavaScript's
  \<^verbatim>\<open>undefined\<close>; reading a list out of range yields \<^verbatim>\<open>undefined\<close>, writing out of range
  extends the list.
\<close>

type_synonym ref = nat

datatype node_type = ELEMENT_NODE | TEXT_NODE | COMMENT_NODE

type_synonym attribute = "string \<times> string"

datatype node =
    Element (tag: string) (attrs: "attribute list") (children: ref)
            (valueProp: "string option") (checkedProp: "bool option")
  | Text (data: string)
  | Comment (data: string)

record store =
  nodes :: "ref \<Rightarrow> node"
  lists :: "ref \<Rightarrow> ref option list"
  fresh :: ref

text \<open>
  What a call can throw: a \<^verbatim>\<open>TypeError\<close> of the language (a property of \<^verbatim>\<open>null\<close> or
  \<^verbatim>\<open>undefined\<close> is read, a value that is no function is called), the string that \<^verbatim>\<open>render\<close>
  throws for more than one root, or a \<^verbatim>\<open>DOMException\<close> of the platform.
\<close>

datatype error = TypeError | SingleRootError | DOMException

datatype 'a result = Ok 'a | Throw error | OutOfFuel

definition jsGet :: "'a option list \<Rightarrow> nat \<Rightarrow> 'a option" where
  "jsGet xs i = (if i < length xs then xs ! i else None)"

definition jsSet :: "'a option list \<Rightarrow> nat \<Rightarrow> 'a option \<Rightarrow> 'a option list" where
  "jsSet xs i v =
     (if i < length xs then xs[i := v] else xs @ replicate (i - length xs) None @ [v])"

subsection \<open>The properties of a node that the comparator reads\<close>

fun nodeType :: "node \<Rightarrow> node_type" where
  "nodeType (Element t as c v k) = ELEMENT_NODE"
| "nodeType (Text d) = TEXT_NODE"
| "nodeType (Comment d) = COMMENT_NODE"

text \<open>\<^verbatim>\<open>tagName\<close> is \<^verbatim>\<open>undefined\<close> (here \<open>None\<close>) on text and comment nodes.\<close>

fun tagName :: "node \<Rightarrow> string option" where
  "tagName (Element t as c v k) = Some t"
| "tagName (Text d) = None"
| "tagName (Comment d) = None"

text \<open>\<^verbatim>\<open>nodeValue\<close> is \<^verbatim>\<open>null\<close> (here \<open>None\<close>) on elements.\<close>

fun nodeValue :: "node \<Rightarrow> string option" where
  "nodeValue (Element t as c v k) = None"
| "nodeValue (Text d) = Some d"
| "nodeValue (Comment d) = Some d"

text \<open>\<^verbatim>\<open>attributes\<close> is \<^verbatim>\<open>undefined\<close> on text and comment nodes.\<close>

fun attributes :: "node \<Rightarrow> attribute list option" where
  "attributes (Element t as c v k) = Some as"
| "attributes (Text d) = None"
| "attributes (Comment d) = None"

text \<open>The \<^verbatim>\<open>childNodes\<close> of a text or comment node is an empty list.\<close>

fun childNodes :: "store \<Rightarrow> node \<Rightarrow> ref option list" where
  "childNodes s (Element t as c v k) = lists s c"
| "childNodes s (Text d) = []"
| "childNodes s (Comment d) = []"

text \<open>
  \<^verbatim>\<open>getAttribute\<close> yields \<^verbatim>\<open>null\<close> (\<open>None\<close>) for a missing attribute. The comparator
  calls it on elements only.
\<close>

fun getAttribute :: "node \<Rightarrow> string \<Rightarrow> string option" where
  "getAttribute (Element t as c v k) name = map_of as name"
| "getAttribute (Text d) name = None"
| "getAttribute (Comment d) name = None"

section \<open>Patches\<close>

text \<open>
  A patch is the object literal the comparator builds. A replacement patch has no \<^verbatim>\<open>mode\<close>
  property (\<open>mode = None\<close>), a \<^verbatim>\<open>remove-node\<close> patch has no \<^verbatim>\<open>replacement\<close>, and only an
  \<^verbatim>\<open>insert-node\<close> patch has a \<^verbatim>\<open>beforePos\<close>.
\<close>

datatype patch_mode = ATTRIBUTES | NODE_VALUE | REMOVE_NODE | APPEND_CHILD | INSERT_NODE | SWAP_NODES

record patch =
  mode :: "patch_mode option"
  toReplace :: "ref option"
  replacement :: "ref option"
  beforePos :: "int option"

definition replacePatch :: "ref option \<Rightarrow> ref \<Rightarrow> patch" where
  "replacePatch node1 node2 =
     \<lparr>mode = None, toReplace = node1, replacement = Some node2, beforePos = None\<rparr>"

definition nodeValuePatch :: "ref \<Rightarrow> ref \<Rightarrow> patch" where
  "nodeValuePatch node1 node2 =
     \<lparr>mode = Some NODE_VALUE, toReplace = Some node1, replacement = Some node2, beforePos = None\<rparr>"

definition attributesPatch :: "ref \<Rightarrow> ref \<Rightarrow> patch" where
  "attributesPatch node1 node2 =
     \<lparr>mode = Some ATTRIBUTES, toReplace = Some node1, replacement = Some node2, beforePos = None\<rparr>"

definition swapNodesPatch :: "ref \<Rightarrow> ref option \<Rightarrow> patch" where
  "swapNodesPatch child1 other =
     \<lparr>mode = Some SWAP_NODES, toReplace = Some child1, replacement = other, beforePos = None\<rparr>"

definition insertNodePatch :: "ref \<Rightarrow> ref \<Rightarrow> int \<Rightarrow> patch" where
  "insertNodePatch node1 child2 p =
     \<lparr>mode = Some INSERT_NODE, toReplace = Some node1, replacement = Some child2,
      beforePos = Some p\<rparr>"

definition removeNodePatch :: "ref option \<Rightarrow> patch" where
  "removeNodePatch child1 =
     \<lparr>mode = Some REMOVE_NODE, toReplace = child1, replacement = None, beforePos = None\<rparr>"

definition appendChildPatch :: "ref \<Rightarrow> ref option \<Rightarrow> patch" where
  "appendChildPatch node1 child2 =
     \<lparr>mode = Some APPEND_CHILD, toReplace = Some node1, replacement = child2, beforePos = None\<rparr>"

section \<open>TreeComparator\<close>

subsection \<open>The comparison policy\<close>

text \<open>
  The optional \<^verbatim>\<open>comparePolicy\<close> callback is any function of the caller. It is handed the two
  live nodes: it may read and write the store, it may throw, and it may not return. Of its
  answer only \<^verbatim>\<open>'SKIP'\<close> and \<^verbatim>\<open>'REPLACE'\<close> are acted upon; every other answer lets the comparison
  go on and is \<open>DIFF\<close> here. A call of the policy yields its answer and the store as the
  policy leaves it.
\<close>

datatype action = DIFF | SKIP | REPLACE

type_synonym policy = "ref option \<Rightarrow> ref \<Rightarrow> store \<Rightarrow> (action \<times> store) result"

text \<open>
  \<^verbatim>\<open>if (comparePolicy) { var actionToDo = comparePolicy(node1, node2); ... }\<close>: without a
  policy the comparison goes on.
\<close>

definition policyAction ::
  "policy option \<Rightarrow> ref option \<Rightarrow> ref \<Rightarrow> store \<Rightarrow> (action \<times> store) result" where
  "policyAction comparePolicy node1 node2 s =
     (case comparePolicy of None \<Rightarrow> Ok (DIFF, s) | Some p \<Rightarrow> p node1 node2 s)"

subsection \<open>\<^verbatim>\<open>_equalAttributes\<close>\<close>

definition skipAttributes :: "attribute \<Rightarrow> bool" where
  "skipAttributes attribute = (fst attribute \<noteq> ''frontyid'')"

fun sameAttributesAt :: "attribute list \<Rightarrow> attribute list \<Rightarrow> bool" where
  "sameAttributesAt (a # as) (b # bs) =
     (if fst a \<noteq> fst b \<or> snd a \<noteq> snd b then False else sameAttributesAt as bs)"
| "sameAttributesAt as bs = True"

definition equalAttributes :: "node \<Rightarrow> node \<Rightarrow> bool" where
  "equalAttributes node1 node2 =
     (case (attributes node1, attributes node2) of
        (None, None) \<Rightarrow> True
      | (None, Some as2) \<Rightarrow> False
      | (Some as1, None) \<Rightarrow> False
      | (Some as1, Some as2) \<Rightarrow>
          (let node1Attributes = filter skipAttributes as1;
               node2Attributes = filter skipAttributes as2
           in if length node1Attributes \<noteq> length node2Attributes then False
              else sameAttributesAt node1Attributes node2Attributes))"

subsection \<open>\<^verbatim>\<open>_buildChildrenKeyIndex\<close>\<close>

text \<open>
  The two key tables are plain objects, \<^verbatim>\<open>{}\<close>, written with \<^verbatim>\<open>table[key] = {node, pos}\<close> and
  read with \<^verbatim>\<open>key in table\<close> and \<^verbatim>\<open>table[key].pos\<close>. A table is modelled by the map of the
  entries written to it. The \<^verbatim>\<open>in\<close> operator converts its left operand to a property name
  (\<^verbatim>\<open>null\<close> becomes \<^verbatim>\<open>"null"\<close>) and also answers true for the properties a plain object inherits
  from \<^verbatim>\<open>Object.prototype\<close>; writing to \<^verbatim>\<open>__proto__\<close> makes the written entry the prototype of
  the table, whose properties \<^verbatim>\<open>node\<close> and \<^verbatim>\<open>pos\<close> are inherited from then on.
\<close>

record keyEntry =
  node :: ref
  pos :: nat

type_synonym keyIndex = "string \<Rightarrow> keyEntry option"

definition propertyKey :: "string option \<Rightarrow> string" where
  "propertyKey key = (case key of None \<Rightarrow> ''null'' | Some k \<Rightarrow> k)"

definition objectPrototypeKeys :: "string list" where
  "objectPrototypeKeys =
     [''constructor'', ''hasOwnProperty'', ''isPrototypeOf'', ''propertyIsEnumerable'',
      ''toLocaleString'', ''toString'', ''valueOf'', ''__proto__'', ''__defineGetter__'',
      ''__defineSetter__'', ''__lookupGetter__'', ''__lookupSetter__'']"

definition keyIn :: "string option \<Rightarrow> keyIndex \<Rightarrow> bool" where
  "keyIn key table =
     (let p = propertyKey key
      in table p \<noteq> None \<or> p \<in> set objectPrototypeKeys \<or>
         (table ''__proto__'' \<noteq> None \<and> (p = ''node'' \<or> p = ''pos'')))"

text \<open>\<^verbatim>\<open>table[key].pos\<close>, where that is read only after \<^verbatim>\<open>key in table\<close> has held.\<close>

definition lookupPos :: "keyIndex \<Rightarrow> string option \<Rightarrow> nat option" where
  "lookupPos table key = (case table (propertyKey key) of None \<Rightarrow> None | Some e \<Rightarrow> Some (pos e))"

text \<open>
  One of the two \<^verbatim>\<open>for\<close> loops of \<^verbatim>\<open>_buildChildrenKeyIndex\<close>: the position counter starts at
  \<open>-1\<close> and is incremented before it is used, so it equals the loop index \<open>i\<close>. A key is
  recorded when the child is an element whose \<^verbatim>\<open>key\<close> attribute is truthy (present and not
  the empty string).
\<close>

fun indexChildren :: "store \<Rightarrow> ref option list \<Rightarrow> nat \<Rightarrow> keyIndex \<Rightarrow> keyIndex result" where
  "indexChildren s [] i table = Ok table"
| "indexChildren s (None # cs) i table = Throw TypeError"
| "indexChildren s (Some n # cs) i table =
     (if nodeType (nodes s n) = ELEMENT_NODE then
        (case getAttribute (nodes s n) ''key'' of
           None \<Rightarrow> indexChildren s cs (Suc i) table
         | Some key \<Rightarrow>
             if key \<noteq> [] then
               indexChildren s cs (Suc i) (table(key \<mapsto> \<lparr>node = n, pos = i\<rparr>))
             else indexChildren s cs (Suc i) table)
      else indexChildren s cs (Suc i) table)"

text \<open>The table of \<^verbatim>\<open>node2\<close> is built first. The result is the pair of tables (of node1, of node2).\<close>

definition buildChildrenKeyIndex ::
  "store \<Rightarrow> ref \<Rightarrow> ref \<Rightarrow> (keyIndex \<times> keyIndex) result" where
  "buildChildrenKeyIndex s node1 node2 =
     (case indexChildren s (childNodes s (nodes s node2)) 0 Map.empty of
        Throw e \<Rightarrow> Throw e
      | OutOfFuel \<Rightarrow> OutOfFuel
      | Ok keyElementIndexNode2 \<Rightarrow>
          (case indexChildren s (childNodes s (nodes s node1)) 0 Map.empty of
             Throw e \<Rightarrow> Throw e
           | OutOfFuel \<Rightarrow> OutOfFuel
           | Ok keyElementIndexNode1 \<Rightarrow> Ok (keyElementIndexNode1, keyElementIndexNode2)))"

subsection \<open>\<^verbatim>\<open>Array.from\<close> and \<^verbatim>\<open>_swapArrayElements\<close>\<close>

text \<open>\<^verbatim>\<open>Array.from\<close> allocates a new array holding a copy of the entries it is given.\<close>

definition arrayFrom :: "ref option list \<Rightarrow> store \<Rightarrow> ref \<times> store" where
  "arrayFrom xs s = (fresh s, s\<lparr>lists := (lists s)(fresh s := xs), fresh := Suc (fresh s)\<rparr>)"

text \<open>
  \<^verbatim>\<open>temp = arr[indexA]; arr[indexA] = arr[indexB]; arr[indexB] = temp\<close>. When \<^verbatim>\<open>indexB\<close> is
  \<^verbatim>\<open>undefined\<close> the last assignment sets the property \<^verbatim>\<open>"undefined"\<close> of the array, which is no
  entry of it.
\<close>

definition swapArrayElements :: "ref \<Rightarrow> nat \<Rightarrow> nat option \<Rightarrow> store \<Rightarrow> store" where
  "swapArrayElements arr indexA indexB s =
     (let xs = lists s arr; temp = jsGet xs indexA
      in case indexB of
           None \<Rightarrow> s\<lparr>lists := (lists s)(arr := jsSet xs indexA None)\<rparr>
         | Some b \<Rightarrow> s\<lparr>lists := (lists s)(arr := jsSet (jsSet xs indexA (jsGet xs b)) b temp)\<rparr>)"

subsection \<open>\<^verbatim>\<open>diff\<close> and \<^verbatim>\<open>_compareChildren\<close>\<close>

record cursors =
  child1pos :: nat
  child2pos :: nat
  insertions :: nat
  deletions :: nat

text \<open>
  The end of \<^verbatim>\<open>diff\<close>, after the children have been compared: a text or comment node whose
  value differs yields the single \<^verbatim>\<open>node-value\<close> patch; otherwise an \<^verbatim>\<open>attributes\<close> patch is
  pushed when \<^verbatim>\<open>_equalAttributes\<close> fails.
\<close>

definition diffNode :: "store \<Rightarrow> ref \<Rightarrow> ref \<Rightarrow> patch list \<Rightarrow> patch list" where
  "diffNode s node1 node2 result =
     (if (nodeType (nodes s node1) = TEXT_NODE \<or> nodeType (nodes s node1) = COMMENT_NODE) \<and>
         nodeValue (nodes s node1) \<noteq> None \<and> nodeValue (nodes s node2) \<noteq> None \<and>
         nodeValue (nodes s node1) \<noteq> nodeValue (nodes s node2)
      then [nodeValuePatch node1 node2]
      else if \<not> equalAttributes (nodes s node1) (nodes s node2)
           then result @ [attributesPatch node1 node2]
           else result)"

text \<open>The two loops after the \<^verbatim>\<open>while\<close> loop of \<^verbatim>\<open>_compareChildren\<close>.\<close>

definition remainingChildren :: "store \<Rightarrow> ref \<Rightarrow> ref \<Rightarrow> cursors \<Rightarrow> patch list" where
  "remainingChildren s node1 node2 c =
     (let cs1 = childNodes s (nodes s node1); cs2 = childNodes s (nodes s node2)
      in if child1pos c < length cs1
         then map (\<lambda>i. removeNodePatch (jsGet cs1 i)) [child1pos c ..< length cs1]
         else if child2pos c < length cs2
         then map (\<lambda>j. appendChildPatch node1 (jsGet cs2 j)) [child2pos c ..< length cs2]
         else [])"

text \<open>
  The branch of the loop for two elements whose keys differ and are not both known on the other
  side: an insertion when \<^verbatim>\<open>key2\<close> is unknown in node1, and then a removal when \<^verbatim>\<open>key1\<close> is
  unknown in node2.
\<close>

definition insertOrRemove ::
  "ref \<Rightarrow> ref \<Rightarrow> ref \<Rightarrow> bool \<Rightarrow> bool \<Rightarrow> cursors \<Rightarrow> patch list \<Rightarrow> cursors \<times> patch list" where
  "insertOrRemove node1 child1 child2 key2Known key1Known c result =
     (let (c', result') =
            (if \<not> key2Known
             then (c\<lparr>child2pos := child2pos c + 1, insertions := insertions c + 1\<rparr>,
                   result @ [insertNodePatch node1 child2
                      (int (child1pos c) + int (insertions c) - int (deletions c))])
             else (c, result))
      in if \<not> key1Known
         then (c'\<lparr>child1pos := child1pos c' + 1, deletions := deletions c' + 1\<rparr>,
               result' @ [removeNodePatch (Some child1)])
         else (c', result'))"

text \<open>
  The fuel bounds the number of iterations of the \<^verbatim>\<open>while\<close> loop along any path of calls: an
  iteration takes one unit, and the calls made within it get what is left. \<open>OutOfFuel\<close> for
  every amount of fuel means that the call does not return.
\<close>

function diff ::
    "nat \<Rightarrow> policy option \<Rightarrow> ref option \<Rightarrow> ref \<Rightarrow> store \<Rightarrow> (patch list \<times> store) result"
  and compareChildren ::
    "nat \<Rightarrow> policy option \<Rightarrow> ref \<Rightarrow> ref \<Rightarrow> patch list \<Rightarrow> store \<Rightarrow> (patch list \<times> store) result"
  and compareChildren_while ::
    "nat \<Rightarrow> policy option \<Rightarrow> ref \<Rightarrow> ref \<Rightarrow> ref \<Rightarrow> keyIndex \<Rightarrow> keyIndex \<Rightarrow> cursors \<Rightarrow>
     patch list \<Rightarrow> store \<Rightarrow> (patch list \<times> store) result"
where
  "diff fuel comparePolicy node1 node2 s0 =
     (case policyAction comparePolicy node1 node2 s0 of
        Throw e \<Rightarrow> Throw e
      | OutOfFuel \<Rightarrow> OutOfFuel
      | Ok (actionToDo, s) \<Rightarrow>
         (case actionToDo of
            SKIP \<Rightarrow> Ok ([], s)
          | REPLACE \<Rightarrow> Ok ([replacePatch node1 node2], s)
          | DIFF \<Rightarrow>
              (case node1 of
                 None \<Rightarrow> Ok ([replacePatch None node2], s)
               | Some n1 \<Rightarrow>
                   if tagName (nodes s n1) = tagName (nodes s node2) \<and>
                      nodeType (nodes s n1) = nodeType (nodes s node2)
                   then
                     (if 0 < length (childNodes s (nodes s n1)) \<or>
                         0 < length (childNodes s (nodes s node2))
                      then
                        (case compareChildren fuel comparePolicy n1 node2 [] s of
                           Ok (result, s') \<Rightarrow> Ok (diffNode s' n1 node2 result, s')
                         | Throw e \<Rightarrow> Throw e
                         | OutOfFuel \<Rightarrow> OutOfFuel)
                      else Ok (diffNode s n1 node2 [], s))
                   else Ok ([replacePatch (Some n1) node2], s))))"
| "compareChildren fuel comparePolicy node1 node2 result s =
     (case arrayFrom (childNodes s (nodes s node1)) s of
        (child1Array, s1) \<Rightarrow>
          (case buildChildrenKeyIndex s1 node1 node2 of
             Throw e \<Rightarrow> Throw e
           | OutOfFuel \<Rightarrow> OutOfFuel
           | Ok (keyElementIndexNode1, keyElementIndexNode2) \<Rightarrow>
               compareChildren_while fuel comparePolicy node1 node2 child1Array
                 keyElementIndexNode1 keyElementIndexNode2
                 \<lparr>child1pos = 0, child2pos = 0, insertions = 0, deletions = 0\<rparr> result s1))"
| "compareChildren_while fuel comparePolicy node1 node2 child1Array keyElementIndexNode1
       keyElementIndexNode2 c result s =
     (if child1pos c < length (childNodes s (nodes s node1)) \<and>
         child2pos c < length (childNodes s (nodes s node2))
      then
        (case fuel of
           0 \<Rightarrow> OutOfFuel
         | Suc fuel' \<Rightarrow>
            (case jsGet (lists s child1Array) (child1pos c) of
               None \<Rightarrow> Throw TypeError
             | Some child1 \<Rightarrow>
            (case jsGet (childNodes s (nodes s node2)) (child2pos c) of
               None \<Rightarrow> Throw TypeError
             | Some child2 \<Rightarrow>
               if nodeType (nodes s child1) = ELEMENT_NODE \<and>
                  nodeType (nodes s child2) = ELEMENT_NODE
               then
                 (let key1 = getAttribute (nodes s child1) ''key'';
                      key2 = getAttribute (nodes s child2) ''key''
                  in if key1 \<noteq> key2 then
                       (if keyIn key1 keyElementIndexNode2 \<and> keyIn key2 keyElementIndexNode1
                        then
                          compareChildren_while fuel' comparePolicy node1 node2 child1Array
                            keyElementIndexNode1 keyElementIndexNode2 c
                            (result @ [swapNodesPatch child1
                               (case lookupPos keyElementIndexNode1 key2 of
                                  None \<Rightarrow> None
                                | Some p \<Rightarrow> jsGet (childNodes s (nodes s node1)) p)])
                            (swapArrayElements child1Array (child1pos c)
                               (lookupPos keyElementIndexNode1 key2) s)
                        else
                          (case insertOrRemove node1 child1 child2
                                  (keyIn key2 keyElementIndexNode1)
                                  (keyIn key1 keyElementIndexNode2) c result of
                             (c', result') \<Rightarrow>
                               compareChildren_while fuel' comparePolicy node1 node2 child1Array
                                 keyElementIndexNode1 keyElementIndexNode2 c' result' s))
                     else
                       (case diff fuel' comparePolicy (Some child1) child2 s of
                          Ok (partial, s') \<Rightarrow>
                            compareChildren_while fuel' comparePolicy node1 node2 child1Array
                              keyElementIndexNode1 keyElementIndexNode2
                              (c\<lparr>child1pos := child1pos c + 1, child2pos := child2pos c + 1\<rparr>)
                              (result @ partial) s'
                        | Throw e \<Rightarrow> Throw e
                        | OutOfFuel \<Rightarrow> OutOfFuel))
               else if nodeType (nodes s child1) \<noteq> ELEMENT_NODE \<and>
                       nodeType (nodes s child2) = ELEMENT_NODE
               then
                 compareChildren_while fuel' comparePolicy node1 node2 child1Array
                   keyElementIndexNode1 keyElementIndexNode2
                   (c\<lparr>child1pos := child1pos c + 1, deletions := deletions c + 1\<rparr>)
                   (result @ [removeNodePatch (Some child1)]) s
               else if nodeType (nodes s child1) = ELEMENT_NODE \<and>
                       nodeType (nodes s child2) \<noteq> ELEMENT_NODE
               then
                 compareChildren_while fuel' comparePolicy node1 node2 child1Array
                   keyElementIndexNode1 keyElementIndexNode2
                   (c\<lparr>child2pos := child2pos c + 1, insertions := insertions c + 1\<rparr>)
                   (result @ [insertNodePatch node1 child2
                      (int (child1pos c) + int (insertions c) - int (deletions c))]) s
               else
                 (case diff fuel' comparePolicy (Some child1) child2 s of
                    Ok (partial, s') \<Rightarrow>
                      compareChildren_while fuel' comparePolicy node1 node2 child1Array
                        keyElementIndexNode1 keyElementIndexNode2
                        (c\<lparr>child1pos := child1pos c + 1, child2pos := child2pos c + 1\<rparr>)
                        (result @ partial) s'
                  | Throw e \<Rightarrow> Throw e
                  | OutOfFuel \<Rightarrow> OutOfFuel))))
      else Ok (result @ remainingChildren s node1 node2 c, s))"
  by pat_completeness auto
termination
  by (relation "measure (\<lambda>x. case x of
         Inl a \<Rightarrow> 3 * fst a + 2
       | Inr (Inl b) \<Rightarrow> 3 * fst b + 1
       | Inr (Inr c) \<Rightarrow> 3 * fst c)") auto

subsection \<open>\<^verbatim>\<open>applyPatches\<close>\<close>

text \<open>
  First the two cases of the \<^verbatim>\<open>switch\<close> of \<^verbatim>\<open>applyPatches\<close> that write to a single node. The
  attributes of an element are a list of name and value pairs in document order, in which a
  name occurs at most once. \<^verbatim>\<open>setAttribute\<close> overwrites the value of an existing attribute in
  place and appends a new one at the end.
\<close>

fun setAttr :: "string \<Rightarrow> string \<Rightarrow> attribute list \<Rightarrow> attribute list" where
  "setAttr name v [] = [(name, v)]"
| "setAttr name v (a # as) = (if fst a = name then (name, v) # as else a # setAttr name v as)"

fun removeAttr :: "string \<Rightarrow> attribute list \<Rightarrow> attribute list" where
  "removeAttr name [] = []"
| "removeAttr name (a # as) = (if fst a = name then as else a # removeAttr name as)"

definition hasAttr :: "string \<Rightarrow> attribute list \<Rightarrow> bool" where
  "hasAttr name as = (case map_of as name of None \<Rightarrow> False | Some v \<Rightarrow> True)"

text \<open>
  The body of the first \<^verbatim>\<open>for\<close> loop, for one attribute of the replacement: the live
  \<^verbatim>\<open>value\<close> property is written when it differs, the live \<^verbatim>\<open>checked\<close> property is set to
  \<^verbatim>\<open>true\<close> (\<^verbatim>\<open>attribute.checked\<close> is \<^verbatim>\<open>undefined\<close>, which is not \<^verbatim>\<open>false\<close>), and the attribute is
  set unless it is one of \<^verbatim>\<open>skipAttributes\<close> that the target already has. The two properties
  are plain fields of the element here. \<open>skipList\<close> is the parameter \<^verbatim>\<open>skipAttributes\<close>,
  \<open>None\<close> when it is \<^verbatim>\<open>undefined\<close>; \<open>target\<close> and \<open>repl\<close> are \<^verbatim>\<open>patch.toReplace\<close> and
  \<^verbatim>\<open>patch.replacement\<close>.
\<close>

fun patchAttribute :: "string list option \<Rightarrow> attribute \<Rightarrow> node \<Rightarrow> node" where
  "patchAttribute skipList attribute (Element t as c v k) =
     Element t
       (if (case skipList of None \<Rightarrow> True
            | Some l \<Rightarrow> fst attribute \<notin> set l \<or> \<not> hasAttr (fst attribute) as)
        then setAttr (fst attribute) (snd attribute) as else as)
       c
       (if fst attribute = ''value'' \<and> v \<noteq> Some (snd attribute) then Some (snd attribute) else v)
       (if fst attribute = ''checked'' then Some True else k)"
| "patchAttribute skipList attribute (Text d) = Text d"
| "patchAttribute skipList attribute (Comment d) = Comment d"

text \<open>
  \<^verbatim>\<open>for (let i = 0; i < replacement.attributes.length; i++)\<close>: the attributes of the
  replacement are read from the store at every iteration. Setting an attribute on a text or
  comment node throws.
\<close>

function setAttributes ::
  "nat \<Rightarrow> string list option \<Rightarrow> ref \<Rightarrow> ref \<Rightarrow> store \<Rightarrow> store result" where
  "setAttributes i skipList target repl s =
     (case attributes (nodes s repl) of
        None \<Rightarrow> Throw TypeError
      | Some as \<Rightarrow>
          if i < length as then
            (if nodeType (nodes s target) = ELEMENT_NODE
             then setAttributes (Suc i) skipList target repl
                    (s\<lparr>nodes := (nodes s)
                        (target := patchAttribute skipList (as ! i) (nodes s target))\<rparr>)
             else Throw TypeError)
          else Ok s)"
  by pat_completeness auto
termination
proof (relation "measure (\<lambda>(i, skipList, target, repl, s).
         length (case attributes (nodes s repl) of None \<Rightarrow> [] | Some as \<Rightarrow> as) - i)",
       goal_cases)
  case 1
  show ?case by simp
next
  case (2 i skipList target repl s as)
  show ?case
  proof (cases "target = repl")
    case False
    with 2 show ?thesis by simp
  next
    case True
    from 2(1) obtain t c v k where n: "nodes s repl = Element t as c v k"
      by (cases "nodes s repl") auto
    from 2(2) have "fst (as ! i) \<in> fst ` set as" by simp
    then have h: "hasAttr (fst (as ! i)) as"
      by (auto simp: hasAttr_def map_of_eq_None_iff split: option.splits)
    have "hasAttr a xs \<Longrightarrow> length (setAttr a b xs) = length xs" for a b and xs :: "attribute list"
      by (induction xs) (auto simp: hasAttr_def)
    with h 2 True n show ?thesis
      by auto
  qed
qed

text \<open>
  \<^verbatim>\<open>for (let j = toReplace.attributes.length - 1; j >= 0; j--)\<close>: the first argument is
  \<open>j + 1\<close>. An attribute of the target that the replacement does not have is removed, and the
  live \<^verbatim>\<open>checked\<close> property is reset with the \<^verbatim>\<open>checked\<close> attribute.
\<close>

fun removeAttributes :: "nat \<Rightarrow> ref \<Rightarrow> ref \<Rightarrow> store \<Rightarrow> store result" where
  "removeAttributes 0 target repl s = Ok s"
| "removeAttributes (Suc j) target repl s =
     (case nodes s target of
        Element t as c v k \<Rightarrow>
          if j < length as then
            (case attributes (nodes s repl) of
               None \<Rightarrow> Throw TypeError
             | Some as2 \<Rightarrow>
                 if \<not> hasAttr (fst (as ! j)) as2
                 then removeAttributes j target repl
                        (s\<lparr>nodes := (nodes s)(target :=
                             Element t (removeAttr (fst (as ! j)) as) c v
                               (if fst (as ! j) = ''checked'' then Some False else k))\<rparr>)
                 else removeAttributes j target repl s)
          else Throw TypeError
      | Text d \<Rightarrow> Throw TypeError
      | Comment d \<Rightarrow> Throw TypeError)"

text \<open>The case \<^verbatim>\<open>'attributes'\<close>.\<close>

definition applyPatches_attributes ::
  "string list option \<Rightarrow> ref option \<Rightarrow> ref option \<Rightarrow> store \<Rightarrow> store result" where
  "applyPatches_attributes skipList target repl s =
     (case (target, repl) of
        (Some t, Some r) \<Rightarrow>
          (case setAttributes 0 skipList t r s of
             Ok s1 \<Rightarrow>
               (case attributes (nodes s1 t) of
                  None \<Rightarrow> Throw TypeError
                | Some as \<Rightarrow> removeAttributes (length as) t r s1)
           | Throw e \<Rightarrow> Throw e
           | OutOfFuel \<Rightarrow> OutOfFuel)
      | _ \<Rightarrow> Throw TypeError)"

text \<open>
  The case \<^verbatim>\<open>'node-value'\<close>. \<open>ftnTag v\<close> is the first group of the match of
  \<^verbatim>\<open>/^(__FTN__:[0-9]+#)/\<close> against \<open>v\<close>, and the empty string when there is no match. A
  \<^verbatim>\<open>null\<close> node value reads as the string \<^verbatim>\<open>"null"\<close> where a string is expected; writing the
  \<^verbatim>\<open>nodeValue\<close> of an element has no effect.
\<close>

definition isDigit :: "char \<Rightarrow> bool" where
  "isDigit ch = (ch \<in> set ''0123456789'')"

definition ftnTag :: "string \<Rightarrow> string" where
  "ftnTag v =
     (if take 8 v = ''__FTN__:'' then
        (let ds = takeWhile isDigit (drop 8 v); rest = dropWhile isDigit (drop 8 v)
         in if ds \<noteq> [] \<and> take 1 rest = ''#'' then ''__FTN__:'' @ ds @ ''#'' else [])
      else [])"

definition jsString :: "string option \<Rightarrow> string" where
  "jsString v = (case v of None \<Rightarrow> ''null'' | Some x \<Rightarrow> x)"

fun setNodeValue :: "string \<Rightarrow> node \<Rightarrow> node" where
  "setNodeValue x (Element t as c v k) = Element t as c v k"
| "setNodeValue x (Text d) = Text x"
| "setNodeValue x (Comment d) = Comment x"

definition applyPatches_nodeValue :: "ref option \<Rightarrow> ref option \<Rightarrow> store \<Rightarrow> store result" where
  "applyPatches_nodeValue target repl s =
     (case (target, repl) of
        (Some t, Some r) \<Rightarrow>
          (let tag = ftnTag (jsString (nodeValue (nodes s t)))
           in Ok (s\<lparr>nodes := (nodes s)
                    (t := setNodeValue (tag @ jsString (nodeValue (nodes s r))) (nodes s t))\<rparr>))
      | _ \<Rightarrow> Throw TypeError)"

text \<open>
  The other cases move nodes within a tree, with the methods \<^verbatim>\<open>removeChild\<close>,
  \<^verbatim>\<open>appendChild\<close>, \<^verbatim>\<open>insertBefore\<close> and \<^verbatim>\<open>replaceChild\<close> and the property \<^verbatim>\<open>parentNode\<close> of
  the DOM. These belong to the platform and are parameters of \<^verbatim>\<open>applyPatches\<close> here; the first
  argument of a method is the node it is called on, and an argument is \<open>None\<close> when the code
  passes \<^verbatim>\<open>undefined\<close> or \<^verbatim>\<open>null\<close>.
\<close>

record platform =
  dom_parentNode :: "store \<Rightarrow> ref \<Rightarrow> ref option"
  dom_removeChild :: "ref \<Rightarrow> ref option \<Rightarrow> store \<Rightarrow> store result"
  dom_appendChild :: "ref \<Rightarrow> ref option \<Rightarrow> store \<Rightarrow> store result"
  dom_insertBefore :: "ref \<Rightarrow> ref option \<Rightarrow> ref option \<Rightarrow> store \<Rightarrow> store result"
  dom_replaceChild :: "ref \<Rightarrow> ref option \<Rightarrow> ref option \<Rightarrow> store \<Rightarrow> store result"

text \<open>\<^verbatim>\<open>document.createElement\<close>: a new element without attributes, with a new empty child list.\<close>

definition createElement :: "string \<Rightarrow> store \<Rightarrow> ref \<times> store" where
  "createElement t s =
     (fresh s,
      s\<lparr>nodes := (nodes s)(fresh s := Element t [] (Suc (fresh s)) None None),
        lists := (lists s)(Suc (fresh s) := []),
        fresh := Suc (Suc (fresh s))\<rparr>)"

text \<open>\<^verbatim>\<open>obj.parentNode.insertBefore(node, child)\<close>, for an \<^verbatim>\<open>obj\<close> that may be \<^verbatim>\<open>undefined\<close>.\<close>

definition parentInsertBefore ::
  "platform \<Rightarrow> ref option \<Rightarrow> ref option \<Rightarrow> ref option \<Rightarrow> store \<Rightarrow> store result" where
  "parentInsertBefore plat obj n child s =
     (case obj of
        None \<Rightarrow> Throw TypeError
      | Some x \<Rightarrow>
          (case dom_parentNode plat s x of
             None \<Rightarrow> Throw TypeError
           | Some parent \<Rightarrow> dom_insertBefore plat parent n child s))"

text \<open>
  \<^verbatim>\<open>_swapElements(obj1, obj2)\<close>: a temporary \<^verbatim>\<open>div\<close> is put before \<^verbatim>\<open>obj1\<close>, \<^verbatim>\<open>obj1\<close> is put
  before \<^verbatim>\<open>obj2\<close>, \<^verbatim>\<open>obj2\<close> is put before the temporary element, which is then removed.
\<close>

definition swapElements :: "platform \<Rightarrow> ref option \<Rightarrow> ref option \<Rightarrow> store \<Rightarrow> store result" where
  "swapElements plat obj1 obj2 s =
     (case createElement ''DIV'' s of
        (temp, s1) \<Rightarrow>
          (case parentInsertBefore plat obj1 (Some temp) obj1 s1 of
             Throw e \<Rightarrow> Throw e
           | OutOfFuel \<Rightarrow> OutOfFuel
           | Ok s2 \<Rightarrow>
               (case parentInsertBefore plat obj2 obj1 obj2 s2 of
                  Throw e \<Rightarrow> Throw e
                | OutOfFuel \<Rightarrow> OutOfFuel
                | Ok s3 \<Rightarrow>
                    (case parentInsertBefore plat (Some temp) obj2 (Some temp) s3 of
                       Throw e \<Rightarrow> Throw e
                     | OutOfFuel \<Rightarrow> OutOfFuel
                     | Ok s4 \<Rightarrow>
                         (case dom_parentNode plat s4 temp of
                            None \<Rightarrow> Throw TypeError
                          | Some parent \<Rightarrow> dom_removeChild plat parent (Some temp) s4)))))"

text \<open>
  \<^verbatim>\<open>patch.toReplace.childNodes[patch.beforePos]\<close>: \<^verbatim>\<open>undefined\<close> when the position is
  \<^verbatim>\<open>undefined\<close>, negative or beyond the end of the list.
\<close>

definition childAt :: "ref option list \<Rightarrow> int option \<Rightarrow> ref option" where
  "childAt cs p = (case p of None \<Rightarrow> None | Some i \<Rightarrow> if i < 0 then None else jsGet cs (nat i))"

text \<open>
  The \<^verbatim>\<open>switch (patch.mode)\<close> for one patch. A patch without \<^verbatim>\<open>mode\<close> is a replacement: it
  takes the \<^verbatim>\<open>default\<close> case, \<^verbatim>\<open>toReplace.parentNode.replaceChild(replacement, toReplace)\<close>.
\<close>

definition applyPatch :: "platform \<Rightarrow> string list option \<Rightarrow> patch \<Rightarrow> store \<Rightarrow> store result" where
  "applyPatch plat skipList patch s =
     (case mode patch of
        Some ATTRIBUTES \<Rightarrow> applyPatches_attributes skipList (toReplace patch) (replacement patch) s
      | Some NODE_VALUE \<Rightarrow> applyPatches_nodeValue (toReplace patch) (replacement patch) s
      | Some REMOVE_NODE \<Rightarrow>
          (case toReplace patch of
             None \<Rightarrow> Throw TypeError
           | Some t \<Rightarrow>
               (case dom_parentNode plat s t of
                  None \<Rightarrow> Throw TypeError
                | Some parent \<Rightarrow> dom_removeChild plat parent (Some t) s))
      | Some APPEND_CHILD \<Rightarrow>
          (case toReplace patch of
             None \<Rightarrow> Throw TypeError
           | Some t \<Rightarrow> dom_appendChild plat t (replacement patch) s)
      | Some INSERT_NODE \<Rightarrow>
          (case toReplace patch of
             None \<Rightarrow> Throw TypeError
           | Some t \<Rightarrow>
               if length (childNodes s (nodes s t)) = 0
               then dom_appendChild plat t (replacement patch) s
               else dom_insertBefore plat t (replacement patch)
                      (childAt (childNodes s (nodes s t)) (beforePos patch)) s)
      | Some SWAP_NODES \<Rightarrow> swapElements plat (toReplace patch) (replacement patch) s
      | None \<Rightarrow>
          (case toReplace patch of
             None \<Rightarrow> Throw TypeError
           | Some t \<Rightarrow>
               (case dom_parentNode plat s t of
                  None \<Rightarrow> Throw TypeError
                | Some parent \<Rightarrow> dom_replaceChild plat parent (replacement patch) (Some t) s)))"

text \<open>
  \<^verbatim>\<open>applyPatches(patches, skipAttributes, patchMapping)\<close>: the patches are applied in order,
  each one after it has been passed through \<^verbatim>\<open>patchMapping\<close> when that function is given. The
  mapping function is the caller's and may have effects of its own.
\<close>

type_synonym patchMapping = "patch \<Rightarrow> store \<Rightarrow> (patch \<times> store) result"

fun applyPatches ::
  "platform \<Rightarrow> patch list \<Rightarrow> string list option \<Rightarrow> patchMapping option \<Rightarrow> store \<Rightarrow>
   store result" where
  "applyPatches plat [] skipList mapping s = Ok s"
| "applyPatches plat (p # patches) skipList mapping s =
     (case (case mapping of None \<Rightarrow> Ok (p, s) | Some f \<Rightarrow> f p s) of
        Throw e \<Rightarrow> Throw e
      | OutOfFuel \<Rightarrow> OutOfFuel
      | Ok (patch, s1) \<Rightarrow>
          (case applyPatch plat skipList patch s1 of
             Throw e \<Rightarrow> Throw e
           | OutOfFuel \<Rightarrow> OutOfFuel
           | Ok s2 \<Rightarrow> applyPatches plat patches skipList mapping s2))"

section \<open>Model\<close>

text \<open>
  A \<^verbatim>\<open>Model\<close> holds the array of its observer functions and the data its user puts on it. An
  observer function is identified by a number; what it does when called with the model and a
  hint is given by a table of behaviours. An observer is any JavaScript function: it may change
  the model, its observers included, and it may throw. The update callback of \<^verbatim>\<open>set\<close> is
  likewise a function from the model to the changed model.

  \<^verbatim>\<open>notifyObservers\<close> records each call it makes: the observer, the state of the model it was
  called with, and the hint (\<open>None\<close> for \<^verbatim>\<open>undefined\<close>).
\<close>

type_synonym observer = nat

record 'd model =
  observers :: "observer list"
  name :: string
  content :: 'd

type_synonym ('d, 'h) behaviours = "observer \<Rightarrow> 'd model \<Rightarrow> 'h option \<Rightarrow> 'd model result"

type_synonym ('d, 'h) call = "observer \<times> 'd model \<times> 'h option"

definition addObserver :: "observer \<Rightarrow> 'd model \<Rightarrow> 'd model" where
  "addObserver observer m = m\<lparr>observers := observers m @ [observer]\<rparr>"

text \<open>\<^verbatim>\<open>splice(indexOf(observer), 1)\<close> removes the first occurrence.\<close>

definition removeObserver :: "observer \<Rightarrow> 'd model \<Rightarrow> 'd model" where
  "removeObserver observer m =
     (if observer \<in> set (observers m) then m\<lparr>observers := remove1 observer (observers m)\<rparr>
      else m)"

text \<open>
  \<^verbatim>\<open>for (let i = 0; i < this.observers.length; i++)\<close>: the length is read at every iteration.
  One unit of fuel is taken by each iteration.
\<close>

fun notifyObservers_for ::
  "nat \<Rightarrow> ('d, 'h) behaviours \<Rightarrow> 'h option \<Rightarrow> nat \<Rightarrow> ('d, 'h) call list \<Rightarrow> 'd model \<Rightarrow>
   (('d, 'h) call list \<times> 'd model) result" where
  "notifyObservers_for fuel call hint i calls m =
     (if i < length (observers m) then
        (case fuel of
           0 \<Rightarrow> OutOfFuel
         | Suc fuel' \<Rightarrow>
             (let observer = observers m ! i
              in case call observer m hint of
                   Ok m' \<Rightarrow>
                     notifyObservers_for fuel' call hint (Suc i) (calls @ [(observer, m, hint)]) m'
                 | Throw e \<Rightarrow> Throw e
                 | OutOfFuel \<Rightarrow> OutOfFuel))
      else Ok (calls, m))"

definition notifyObservers ::
  "nat \<Rightarrow> ('d, 'h) behaviours \<Rightarrow> 'h option \<Rightarrow> 'd model \<Rightarrow> (('d, 'h) call list \<times> 'd model) result"
  where
  "notifyObservers fuel call hint m = notifyObservers_for fuel call hint 0 [] m"

text \<open>\<^verbatim>\<open>set(update, hint)\<close>: \<^verbatim>\<open>update(this); this.notifyObservers(hint)\<close>.\<close>

definition set_model ::
  "nat \<Rightarrow> ('d, 'h) behaviours \<Rightarrow> ('d model \<Rightarrow> 'd model result) \<Rightarrow> 'h option \<Rightarrow> 'd model \<Rightarrow>
   (('d, 'h) call list \<times> 'd model) result" where
  "set_model fuel call update hint m =
     (case update m of
        Ok m1 \<Rightarrow> notifyObservers fuel call hint m1
      | Throw e \<Rightarrow> Throw e
      | OutOfFuel \<Rightarrow> OutOfFuel)"

section \<open>Component\<close>

text \<open>
  The fields of a \<^verbatim>\<open>Component\<close> that \<^verbatim>\<open>render\<close> reads and writes up to the comparison of the
  trees. \<^verbatim>\<open>childComponentIds\<close> is the list of the keys of that object.
\<close>

record component =
  htmlNodeId :: string
  stopped :: bool
  rendering :: bool
  previousVirtualDOM :: "ref option"
  generatedIdsCounter :: nat
  childComponentIds :: "string list"

subsection \<open>\<^verbatim>\<open>_tagTree\<close>\<close>

text \<open>The decimal digits of a number, as string concatenation writes them.\<close>

definition digitChar :: "nat \<Rightarrow> char" where
  "digitChar d = ''0123456789'' ! d"

function numberToString :: "nat \<Rightarrow> string" where
  "numberToString n =
     (if n < 10 then [digitChar n] else numberToString (n div 10) @ [digitChar (n mod 10)])"
  by pat_completeness auto
termination
  by (relation "measure id") auto

text \<open>
  \<^verbatim>\<open>_tagTree\<close> gives an element the attribute \<^verbatim>\<open>frontyid\<close> and tags its children in turn, and
  puts the marker \<^verbatim>\<open>__FTN__:<id>#\<close> in front of the value of a text or comment node. The
  counter is \<^verbatim>\<open>_generatedIdsCounter\<close>. Each call and each iteration of the \<^verbatim>\<open>for\<close> loop takes one
  unit of fuel.
\<close>

fun tagTree :: "nat \<Rightarrow> ref \<Rightarrow> nat \<times> store \<Rightarrow> (nat \<times> store) result"
  and tagTree_for :: "nat \<Rightarrow> ref \<Rightarrow> nat \<Rightarrow> nat \<times> store \<Rightarrow> (nat \<times> store) result"
where
  "tagTree 0 tree (counter, s) = OutOfFuel"
| "tagTree (Suc fuel) tree (counter, s) =
     (case nodes s tree of
        Element t as c v k \<Rightarrow>
          tagTree_for fuel tree 0
            (Suc counter,
             s\<lparr>nodes := (nodes s)
                 (tree := Element t (setAttr ''frontyid'' (numberToString counter) as) c v k)\<rparr>)
      | Text d \<Rightarrow>
          Ok (Suc counter,
              s\<lparr>nodes := (nodes s)
                  (tree := Text (''__FTN__:'' @ numberToString counter @ ''#'' @ d))\<rparr>)
      | Comment d \<Rightarrow>
          Ok (Suc counter,
              s\<lparr>nodes := (nodes s)
                  (tree := Comment (''__FTN__:'' @ numberToString counter @ ''#'' @ d))\<rparr>))"
| "tagTree_for fuel tree i (counter, s) =
     (if i < length (childNodes s (nodes s tree)) then
        (case fuel of
           0 \<Rightarrow> OutOfFuel
         | Suc fuel' \<Rightarrow>
             (case jsGet (childNodes s (nodes s tree)) i of
                None \<Rightarrow> Throw TypeError
              | Some child \<Rightarrow>
                  (case tagTree fuel' child (counter, s) of
                     Ok cs \<Rightarrow> tagTree_for fuel' tree (Suc i) cs
                   | Throw e \<Rightarrow> Throw e
                   | OutOfFuel \<Rightarrow> OutOfFuel)))
      else Ok (counter, s))"

subsection \<open>The policy of \<^verbatim>\<open>_renderNewTree\<close>\<close>

text \<open>
  The \<^verbatim>\<open>id\<close> property of a node: the value of the attribute \<^verbatim>\<open>id\<close> of an element, the empty
  string when it has none; \<^verbatim>\<open>undefined\<close> on a text or comment node. Both the empty string and
  \<^verbatim>\<open>undefined\<close> are falsy.
\<close>

definition nodeId :: "node \<Rightarrow> string option" where
  "nodeId n =
     (case attributes n of
        None \<Rightarrow> None
      | Some as \<Rightarrow> (case map_of as ''id'' of None \<Rightarrow> Some [] | Some i \<Rightarrow> Some i))"

definition truthy :: "string option \<Rightarrow> bool" where
  "truthy v = (case v of None \<Rightarrow> False | Some x \<Rightarrow> x \<noteq> [])"

text \<open>\<^verbatim>\<open>id in this.childComponentIds\<close>, for an object created as \<^verbatim>\<open>{}\<close>.\<close>

definition inChildComponentIds :: "string option \<Rightarrow> string list \<Rightarrow> bool" where
  "inChildComponentIds i ids =
     (propertyKey i \<in> set ids \<or> propertyKey i \<in> set objectPrototypeKeys)"

fun isSubstring :: "string \<Rightarrow> string \<Rightarrow> bool" where
  "isSubstring sub [] = (sub = [])"
| "isSubstring sub (x # xs) = (take (length sub) (x # xs) = sub \<or> isSubstring sub xs)"

text \<open>
  The callback that \<^verbatim>\<open>_renderNewTree\<close> passes to \<^verbatim>\<open>diff\<close>. It reads the two nodes and does not
  write; after the first render, reading \<^verbatim>\<open>node1.id\<close> throws when \<^verbatim>\<open>node1\<close> is \<^verbatim>\<open>null\<close>.
\<close>

definition renderPolicy :: "bool \<Rightarrow> string list \<Rightarrow> policy" where
  "renderPolicy firstRender ids node1 node2 s =
     (if firstRender then Ok (REPLACE, s)
      else case node1 of
        None \<Rightarrow> Throw TypeError
      | Some n1 \<Rightarrow>
          (let id1 = nodeId (nodes s n1); id2 = nodeId (nodes s node2)
           in if truthy id1 \<and> truthy id2 \<and> id1 = id2 \<and> inChildComponentIds id1 ids
              then Ok (SKIP, s)
              else if truthy id1 \<and> inChildComponentIds id1 ids then Ok (REPLACE, s)
              else if nodeType (nodes s n1) = COMMENT_NODE \<and>
                      isSubstring ''fronty-text-node'' (jsString (nodeValue (nodes s n1)))
              then Ok (SKIP, s)
              else Ok (DIFF, s)))"

subsection \<open>\<^verbatim>\<open>_renderNewTree\<close>\<close>

text \<open>
  \<open>doc s i\<close> is \<^verbatim>\<open>document.getElementById(i)\<close> in the store \<open>s\<close>.
\<close>

type_synonym document = "store \<Rightarrow> string \<Rightarrow> ref option"

text \<open>
  The function that \<^verbatim>\<open>_renderNewTree\<close> passes to \<^verbatim>\<open>applyPatches\<close> as \<^verbatim>\<open>patchMapping\<close> resolves
  the nodes of a patch to nodes of the page, clones the node to insert and indexes the clone.
  What it does to the component and to the virtual trees is this: on a render after the first,
  for every patch that is no \<^verbatim>\<open>node-value\<close> and no \<^verbatim>\<open>swap-nodes\<close> patch and has a replacement, it
  calls \<^verbatim>\<open>_tagTree(patch.replacement)\<close>. Reading \<^verbatim>\<open>patch.toReplace.nodeType\<close> throws for a patch
  whose \<^verbatim>\<open>toReplace\<close> is \<^verbatim>\<open>null\<close>; a patch whose \<^verbatim>\<open>toReplace\<close> is \<^verbatim>\<open>undefined\<close> passes the mapping
  and makes \<^verbatim>\<open>applyPatches\<close> throw.
\<close>

fun tagReplacements :: "nat \<Rightarrow> patch list \<Rightarrow> nat \<times> store \<Rightarrow> (nat \<times> store) result" where
  "tagReplacements fuel [] cs = Ok cs"
| "tagReplacements fuel (p # patches) cs =
     (case toReplace p of
        None \<Rightarrow> Throw TypeError
      | Some t \<Rightarrow>
          (case replacement p of
             None \<Rightarrow> tagReplacements fuel patches cs
           | Some r \<Rightarrow>
               if mode p \<noteq> Some NODE_VALUE \<and> mode p \<noteq> Some SWAP_NODES
               then (case tagTree fuel r cs of
                       Ok cs' \<Rightarrow> tagReplacements fuel patches cs'
                     | Throw e \<Rightarrow> Throw e
                     | OutOfFuel \<Rightarrow> OutOfFuel)
               else tagReplacements fuel patches cs))"

text \<open>
  The part of \<^verbatim>\<open>_renderNewTree\<close> that decides what is patched and what the component keeps
  for the next render: the choice of the current tree (the previous virtual tree, or on the
  first render the component node, which is emptied and whose absence throws), the tagging of
  the new tree on the first render, the \<^verbatim>\<open>id\<close> attribute of its root, the call of
  \<^verbatim>\<open>TreeComparator.diff\<close>, and on a later render the tagging of the nodes that the patches
  bring in. The result is the patch list that is handed to \<^verbatim>\<open>applyPatches\<close>, the component as
  the method leaves it when the patches apply without throwing (\<^verbatim>\<open>_previousVirtualDOM\<close> is the
  new tree after the first render and the same tree object as before after a later render,
  \<^verbatim>\<open>rendering\<close> is reset), and the store with the virtual trees as compared and tagged. The
  changes that \<^verbatim>\<open>applyPatches\<close> makes to the page and, on a later render, to the previous
  virtual tree are the platform's and are not made in this store. On the first render the
  patches are applied to the page with a clone of the new tree, so that the new tree is the
  previous virtual tree of the next render as it is in this store.
\<close>

definition renderNewTree_diff ::
  "nat \<Rightarrow> document \<Rightarrow> component \<Rightarrow> ref option \<Rightarrow> store \<Rightarrow>
   (patch list \<times> component \<times> store) result" where
  "renderNewTree_diff fuel doc self newTree s =
     (let firstRender = (previousVirtualDOM self = None);
          currentTree = (if \<not> firstRender then previousVirtualDOM self
                         else doc s (htmlNodeId self))
      in if firstRender \<and> currentTree = None then Throw TypeError
         else
          (let s1 = (if firstRender then
                       (case currentTree of
                          None \<Rightarrow> s
                        | Some cur \<Rightarrow>
                            (case nodes s cur of
                               Element t as c v k \<Rightarrow> s\<lparr>lists := (lists s)(c := [])\<rparr>
                             | Text d \<Rightarrow> s
                             | Comment d \<Rightarrow> s))
                     else s)
           in case newTree of
                None \<Rightarrow> Throw TypeError
              | Some new \<Rightarrow>
                  (case (if firstRender then tagTree fuel new (generatedIdsCounter self, s1)
                         else Ok (generatedIdsCounter self, s1)) of
                     Throw e \<Rightarrow> Throw e
                   | OutOfFuel \<Rightarrow> OutOfFuel
                   | Ok (counter, s2) \<Rightarrow>
                       (let s3 = (case nodes s2 new of
                                    Element t as c v k \<Rightarrow>
                                      s2\<lparr>nodes := (nodes s2)
                                           (new := Element t (setAttr ''id'' (htmlNodeId self) as) c v k)\<rparr>
                                  | Text d \<Rightarrow> s2
                                  | Comment d \<Rightarrow> s2)
                        in case diff fuel (Some (renderPolicy firstRender (childComponentIds self)))
                                  currentTree new s3 of
                             Throw e \<Rightarrow> Throw e
                           | OutOfFuel \<Rightarrow> OutOfFuel
                           | Ok (patches, s4) \<Rightarrow>
                               (case (if firstRender then Ok (counter, s4)
                                      else tagReplacements fuel patches (counter, s4)) of
                                  Throw e \<Rightarrow> Throw e
                                | OutOfFuel \<Rightarrow> OutOfFuel
                                | Ok (counter', s5) \<Rightarrow>
                                    Ok (patches,
                                        self\<lparr>generatedIdsCounter := counter',
                                             previousVirtualDOM :=
                                               (if firstRender then Some new else currentTree),
                                             rendering := False\<rparr>,
                                        s5))))))"

subsection \<open>\<^verbatim>\<open>render\<close> and \<^verbatim>\<open>_defaultParsingService\<close>\<close>

text \<open>
  The renderer function returns markup or a node, and may allocate nodes. Setting \<^verbatim>\<open>innerHTML\<close>
  runs the HTML parser of the platform: \<open>innerHTML markup s\<close> is the list of the nodes that the
  markup yields, in order, and the store in which they have been allocated.
\<close>

datatype renderOutput = Markup string | Tree ref

type_synonym renderer = "store \<Rightarrow> renderOutput \<times> store"

type_synonym htmlParser = "string \<Rightarrow> store \<Rightarrow> ref list \<times> store"

text \<open>
  \<^verbatim>\<open>String.prototype.trim\<close> strips the white space and line terminator characters of the
  language from both ends. A character is one of 256 code units here; of these the tabulation
  characters U+0009 and U+000B, the form feed U+000C, the space U+0020, the no-break space
  U+00A0, and the line terminators U+000A and U+000D are stripped. The other characters that
  \<^verbatim>\<open>trim\<close> strips (U+1680, U+2000 to U+200A, U+2028, U+2029, U+202F, U+205F, U+3000 and U+FEFF)
  lie beyond U+00FF and do not occur in a string of this model.
\<close>

definition isSpace :: "char \<Rightarrow> bool" where
  "isSpace ch =
     (ch \<in> set [CHR '' '', CHR 0x09, CHR 0x0A, CHR 0x0B, CHR 0x0C, CHR 0x0D, CHR 0xA0])"

definition trim :: "string \<Rightarrow> string" where
  "trim x = rev (dropWhile isSpace (rev (dropWhile isSpace x)))"

text \<open>\<^verbatim>\<open>/^<tr .*/i\<close> and \<^verbatim>\<open>/^<t[dh] .*/i\<close>, which ignore the case of the letters.\<close>

definition startsWithTr :: "string \<Rightarrow> bool" where
  "startsWithTr x = (take 4 x \<in> set [''<tr '', ''<tR '', ''<Tr '', ''<TR ''])"

definition startsWithTdTh :: "string \<Rightarrow> bool" where
  "startsWithTdTh x =
     (take 4 x \<in> set [''<td '', ''<tD '', ''<Td '', ''<TD '', ''<th '', ''<tH '', ''<Th '', ''<TH ''])"

definition firstChild :: "store \<Rightarrow> ref option \<Rightarrow> ref option result" where
  "firstChild s n =
     (case n of None \<Rightarrow> Throw TypeError | Some r \<Rightarrow> Ok (jsGet (childNodes s (nodes s r)) 0))"

text \<open>
  \<^verbatim>\<open>parent.appendChild(child)\<close> on an element: the child becomes the last child of the parent.
  The DOM also takes the child out of the list of its former parent; here the former parent is
  an element of the temporary tree built for parsing, which is not read again, and its list is
  left as it is.
\<close>

definition appendChild :: "ref \<Rightarrow> ref option \<Rightarrow> store \<Rightarrow> store result" where
  "appendChild parent child s =
     (case child of
        None \<Rightarrow> Throw TypeError
      | Some ch \<Rightarrow>
          (case nodes s parent of
             Element t as c v k \<Rightarrow> Ok (s\<lparr>lists := (lists s)(c := lists s c @ [Some ch])\<rparr>)
           | Text d \<Rightarrow> Throw TypeError
           | Comment d \<Rightarrow> Throw TypeError))"

text \<open>
  The callback that \<^verbatim>\<open>render\<close> passes to the parsing service: it appends the parsed root to
  \<^verbatim>\<open>newTree\<close>, throws when \<^verbatim>\<open>newTree\<close> has more than one child, and calls \<^verbatim>\<open>_renderNewTree\<close>.
\<close>

definition render_callback ::
  "nat \<Rightarrow> document \<Rightarrow> component \<Rightarrow> string \<Rightarrow> ref \<Rightarrow> ref option \<Rightarrow> store \<Rightarrow>
   (patch list \<times> component \<times> store) result" where
  "render_callback fuel doc self htmlContents newTree parsed s =
     (case (if startsWithTr htmlContents then
              (case firstChild s parsed of Ok a \<Rightarrow> firstChild s a | Throw e \<Rightarrow> Throw e
               | OutOfFuel \<Rightarrow> OutOfFuel)
            else if startsWithTdTh htmlContents then
              (case firstChild s parsed of
                 Ok a \<Rightarrow> (case firstChild s a of Ok b \<Rightarrow> firstChild s b | Throw e \<Rightarrow> Throw e
                           | OutOfFuel \<Rightarrow> OutOfFuel)
               | Throw e \<Rightarrow> Throw e
               | OutOfFuel \<Rightarrow> OutOfFuel)
            else Ok parsed) of
        Throw e \<Rightarrow> Throw e
      | OutOfFuel \<Rightarrow> OutOfFuel
      | Ok root \<Rightarrow>
          (case appendChild newTree root s of
             Throw e \<Rightarrow> Throw e
           | OutOfFuel \<Rightarrow> OutOfFuel
           | Ok s1 \<Rightarrow>
               if 1 < length (childNodes s1 (nodes s1 newTree)) then Throw SingleRootError
               else (case firstChild s1 (Some newTree) of
                       Ok new \<Rightarrow> renderNewTree_diff fuel doc self new s1
                     | Throw e \<Rightarrow> Throw e
                     | OutOfFuel \<Rightarrow> OutOfFuel)))"

text \<open>
  \<^verbatim>\<open>Component._defaultParsingService.parse\<close>: a new \<^verbatim>\<open>div\<close> receives the markup as its
  \<^verbatim>\<open>innerHTML\<close>, and the callback is called with the first child of that \<^verbatim>\<open>div\<close>.
\<close>

definition defaultParsingService_parse ::
  "htmlParser \<Rightarrow> string \<Rightarrow> (ref option \<Rightarrow> store \<Rightarrow> 'a result) \<Rightarrow> store \<Rightarrow> 'a result" where
  "defaultParsingService_parse innerHTML htmlContents callback s =
     (case createElement ''DIV'' s of
        (elem, s1) \<Rightarrow>
          (case innerHTML htmlContents s1 of
             (parsed, s2) \<Rightarrow>
               (case nodes s2 elem of
                  Element t as c v k \<Rightarrow>
                    (let s3 = s2\<lparr>lists := (lists s2)(c := map Some parsed)\<rparr>
                     in case firstChild s3 (Some elem) of
                          Ok first \<Rightarrow> callback first s3
                        | Throw e \<Rightarrow> Throw e
                        | OutOfFuel \<Rightarrow> OutOfFuel)
                | Text d \<Rightarrow> Throw TypeError
                | Comment d \<Rightarrow> Throw TypeError)))"

text \<open>
  \<^verbatim>\<open>render\<close>. The result holds \<open>None\<close> when the component does not render (it is rendering
  already, it is stopped, or its node is not in the document), and the patch list otherwise.
  The renderer is called a second time when its first answer is a string.
\<close>

definition render ::
  "nat \<Rightarrow> htmlParser \<Rightarrow> renderer \<Rightarrow> document \<Rightarrow> component \<Rightarrow> store \<Rightarrow>
   (patch list option \<times> component \<times> store) result" where
  "render fuel innerHTML renderer doc self s =
     (if rendering self then Ok (None, self, s)
      else if stopped self \<or> htmlNodeId self = [] \<or> doc s (htmlNodeId self) = None
      then Ok (None, self\<lparr>rendering := False\<rparr>, s)
      else
        (let self1 = self\<lparr>rendering := True\<rparr>
         in case renderer s of
              (Markup first, s1) \<Rightarrow>
                (case renderer s1 of
                   (Tree n, s2) \<Rightarrow> Throw TypeError
                 | (Markup again, s2) \<Rightarrow>
                     (let htmlContents = trim again
                      in case createElement ''DIV'' s2 of
                           (newTree, s3) \<Rightarrow>
                             (let correctedHtmlContents =
                                    (if startsWithTr htmlContents
                                     then ''<table><tbody>'' @ htmlContents @ ''</tbody></table>''
                                     else if startsWithTdTh htmlContents
                                     then ''<table><tbody><tr>'' @ htmlContents @
                                          ''</tr></tbody></table>''
                                     else htmlContents)
                              in case defaultParsingService_parse innerHTML correctedHtmlContents
                                        (render_callback fuel doc self1 htmlContents newTree) s3 of
                                   Ok (patches, self2, s4) \<Rightarrow> Ok (Some patches, self2, s4)
                                 | Throw e \<Rightarrow> Throw e
                                 | OutOfFuel \<Rightarrow> OutOfFuel)))
            | (Tree n, s1) \<Rightarrow>
                (case createElement ''DIV'' s1 of
                   (newTree, s2) \<Rightarrow>
                     (case appendChild newTree (Some n) s2 of
                        Throw e \<Rightarrow> Throw e
                      | OutOfFuel \<Rightarrow> OutOfFuel
                      | Ok s3 \<Rightarrow>
                          (case firstChild s3 (Some newTree) of
                             Throw e \<Rightarrow> Throw e
                           | OutOfFuel \<Rightarrow> OutOfFuel
                           | Ok new \<Rightarrow>
                               (case renderNewTree_diff fuel doc self1 new s3 of
                                  Ok (patches, self2, s4) \<Rightarrow> Ok (Some patches, self2, s4)
                                | Throw e \<Rightarrow> Throw e
                                | OutOfFuel \<Rightarrow> OutOfFuel))))))"

declare diff.simps [simp del] compareChildren.simps [simp del]
  compareChildren_while.simps [simp del]

section \<open>Example trees\<close>

text \<open>
  A keyed list item \<^verbatim>\<open><li key="k"></li>\<close> whose child list is the (empty) list object \<open>c\<close>.
\<close>

definition keyedItem :: "string \<Rightarrow> ref \<Rightarrow> node" where
  "keyedItem k c = Element ''LI'' [(''key'', k)] c None None"

text \<open>
  The old list \<^verbatim>\<open>[A(key=1), B(key=2), C(key=3)]\<close> under the element 10 (A, B, C are the
  nodes 11, 12, 13) and the new list \<^verbatim>\<open>[C(key=3), A(key=1), B(key=2)]\<close> under the element 20
  (the nodes 21, 22, 23). The objects 30 to 43 are the \<^verbatim>\<open>childNodes\<close> lists.
\<close>

definition keyedReorderStore :: store where
  "keyedReorderStore =
     \<lparr>nodes = (\<lambda>r. Text [])
        (10 := Element ''UL'' [] 30 None None,
         11 := keyedItem ''1'' 31, 12 := keyedItem ''2'' 32, 13 := keyedItem ''3'' 33,
         20 := Element ''UL'' [] 40 None None,
         21 := keyedItem ''3'' 41, 22 := keyedItem ''1'' 42, 23 := keyedItem ''2'' 43),
      lists = (\<lambda>r. [])(30 := [Some 11, Some 12, Some 13], 40 := [Some 21, Some 22, Some 23]),
      fresh = 50\<rparr>"

text \<open>
  The list \<^verbatim>\<open>[A(key=1), B(key=2)]\<close> under the element 10 (the nodes 11, 12) and the list
  \<^verbatim>\<open>[A(key=1), C(key=3), B(key=2)]\<close> under the element 20 (the nodes 21, 22, 23).
\<close>

definition keyedInsertStore :: store where
  "keyedInsertStore =
     \<lparr>nodes = (\<lambda>r. Text [])
        (10 := Element ''UL'' [] 30 None None,
         11 := keyedItem ''1'' 31, 12 := keyedItem ''2'' 32,
         20 := Element ''UL'' [] 40 None None,
         21 := keyedItem ''1'' 41, 22 := keyedItem ''3'' 42, 23 := keyedItem ''2'' 43),
      lists = (\<lambda>r. [])(30 := [Some 11, Some 12], 40 := [Some 21, Some 22, Some 23]),
      fresh = 50\<rparr>"

text \<open>The store after \<^verbatim>\<open>Array.from\<close> has allocated one array holding \<open>xs\<close>.\<close>

definition allocated :: "store \<Rightarrow> ref option list \<Rightarrow> store" where
  "allocated s xs = s\<lparr>lists := (lists s)(fresh s := xs), fresh := Suc (fresh s)\<rparr>"

definition keyedReorderIndex1 :: keyIndex where
  "keyedReorderIndex1 =
     [''1'' \<mapsto> \<lparr>node = 11, pos = 0\<rparr>, ''2'' \<mapsto> \<lparr>node = 12, pos = 1\<rparr>,
      ''3'' \<mapsto> \<lparr>node = 13, pos = 2\<rparr>]"

definition keyedReorderIndex2 :: keyIndex where
  "keyedReorderIndex2 =
     [''3'' \<mapsto> \<lparr>node = 21, pos = 0\<rparr>, ''1'' \<mapsto> \<lparr>node = 22, pos = 1\<rparr>,
      ''2'' \<mapsto> \<lparr>node = 23, pos = 2\<rparr>]"

text \<open>
  The list \<^verbatim>\<open>[A(key=1), B(key=2)]\<close> under the element 10 (the nodes 11, 12) and the list
  \<^verbatim>\<open>[B(key=2), A(key=1)]\<close> under the element 20 (the nodes 21, 22).
\<close>

definition keyedSwapStore :: store where
  "keyedSwapStore =
     \<lparr>nodes = (\<lambda>r. Text [])
        (10 := Element ''UL'' [] 30 None None,
         11 := keyedItem ''1'' 31, 12 := keyedItem ''2'' 32,
         20 := Element ''UL'' [] 40 None None,
         21 := keyedItem ''2'' 41, 22 := keyedItem ''1'' 42),
      lists = (\<lambda>r. [])(30 := [Some 11, Some 12], 40 := [Some 21, Some 22]),
      fresh = 50\<rparr>"


text \<open>
  A model with two observers, 0 and 1. Observer 0 removes itself from the model when it is
  notified, as the observer of a \<^verbatim>\<open>ModelComponent\<close> does when the update makes the component
  stop; observer 1 does nothing to the model.
\<close>

definition twoObservers :: "unit model" where
  "twoObservers = \<lparr>observers = [0, 1], name = ''m'', content = ()\<rparr>"

definition selfRemoving :: "(unit, unit) behaviours" where
  "selfRemoving observer m hint = (if observer = 0 then Ok (removeObserver 0 m) else Ok m)"

text \<open>
  Two pairs of elements with the same tag name: the attributes of 10 and 20 differ, those of 11
  and 21 differ only by the attribute \<^verbatim>\<open>frontyid\<close>. The element 15 is a copy of the element 10.
\<close>

definition attributeStore :: store where
  "attributeStore =
     \<lparr>nodes = (\<lambda>r. Text [])
        (10 := Element ''DIV'' [(''class'', ''a''), (''title'', ''x''), (''frontyid'', ''3'')] 30 None None,
         20 := Element ''DIV'' [(''class'', ''b''), (''id'', ''i'')] 40 None None,
         11 := Element ''P'' [(''frontyid'', ''4''), (''class'', ''a'')] 31 None None,
         21 := Element ''P'' [(''class'', ''a'')] 41 None None,
         15 := Element ''DIV'' [(''class'', ''a''), (''title'', ''x''), (''frontyid'', ''3'')] 35 None None),
      lists = (\<lambda>r. []),
      fresh = 50\<rparr>"

text \<open>
  A platform for nodes that are in no tree: no node has a parent, and a method that moves a
  node throws.
\<close>

definition detached :: platform where
  "detached =
     \<lparr>dom_parentNode = (\<lambda>s n. None),
      dom_removeChild = (\<lambda>parent child s. Throw DOMException),
      dom_appendChild = (\<lambda>parent child s. Throw DOMException),
      dom_insertBefore = (\<lambda>parent n child s. Throw DOMException),
      dom_replaceChild = (\<lambda>parent n child s. Throw DOMException)\<rparr>"


text \<open>
  A page whose element 10 has the \<^verbatim>\<open>id\<close> \<^verbatim>\<open>app\<close> and one child, the text node 12, and a started
  component that renders into that element and has not rendered yet.
\<close>

definition pageStore :: store where
  "pageStore =
     \<lparr>nodes = (\<lambda>r. Text [])
        (10 := Element ''DIV'' [(''id'', ''app'')] 11 None None, 12 := Text ''loading''),
      lists = (\<lambda>r. [])(11 := [Some 12]),
      fresh = 20\<rparr>"

definition pageDocument :: document where
  "pageDocument s i = (if i = ''app'' then Some 10 else None)"

definition app :: component where
  "app = \<lparr>htmlNodeId = ''app'', stopped = False, rendering = False, previousVirtualDOM = None,
          generatedIdsCounter = 0, childComponentIds = []\<rparr>"

text \<open>
  A renderer that always returns the markup \<^verbatim>\<open><div>hi</div>\<close>, and what the HTML parser yields
  for that markup: one element with one text child.
\<close>

definition greeting :: renderer where
  "greeting s = (Markup ''<div>hi</div>'', s)"

definition parseGreeting :: htmlParser where
  "parseGreeting markup s =
     (if markup = ''<div>hi</div>'' then
        ([fresh s],
         s\<lparr>nodes := (nodes s)
               (fresh s := Element ''DIV'' [] (fresh s + 1) None None,
                fresh s + 2 := Text ''hi''),
           lists := (lists s)(fresh s + 1 := [Some (fresh s + 2)], fresh s + 2 := []),
           fresh := fresh s + 3\<rparr>)
      else ([], s))"

text \<open>
  A renderer that returns markup with two root elements, \<^verbatim>\<open><p>a</p><p>b</p>\<close>, and what the
  HTML parser yields for it: two elements, each with one text child.
\<close>

definition twoRoots :: renderer where
  "twoRoots s = (Markup ''<p>a</p><p>b</p>'', s)"

definition parseTwoRoots :: htmlParser where
  "parseTwoRoots markup s =
     (if markup = ''<p>a</p><p>b</p>'' then
        ([fresh s, fresh s + 3],
         s\<lparr>nodes := (nodes s)
               (fresh s := Element ''P'' [] (fresh s + 1) None None,
                fresh s + 2 := Text ''a'',
                fresh s + 3 := Element ''P'' [] (fresh s + 4) None None,
                fresh s + 5 := Text ''b''),
           lists := (lists s)(fresh s + 1 := [Some (fresh s + 2)],
                              fresh s + 4 := [Some (fresh s + 5)]),
           fresh := fresh s + 6\<rparr>)
      else ([], s))"

section \<open>Notions used in the statements\<close>

text \<open>
  \<open>frame F s s'\<close>: from \<open>s\<close> to \<open>s'\<close> no node has changed, no list object below the address
  \<open>F\<close> has changed, and objects have only been allocated.
\<close>

definition frame :: "nat \<Rightarrow> store \<Rightarrow> store \<Rightarrow> bool" where
  "frame F s s' =
     (nodes s' = nodes s \<and> fresh s \<le> fresh s' \<and> (\<forall>a<F. lists s' a = lists s a))"

text \<open>
  A policy is read-only when every call of it that answers leaves the store as it was. No
  policy is read-only too.
\<close>

definition readOnly :: "policy option \<Rightarrow> bool" where
  "readOnly comparePolicy =
     (case comparePolicy of
        None \<Rightarrow> True
      | Some p \<Rightarrow> (\<forall>node1 node2 s a s'. p node1 node2 s = Ok (a, s') \<longrightarrow> s' = s))"



text \<open>
  The lists of attribute names that \<^verbatim>\<open>applyPatches\<close> is called with in \<^verbatim>\<open>_renderNewTree\<close>:
  \<^verbatim>\<open>['frontyid']\<close>; the parameter may also be left \<^verbatim>\<open>undefined\<close>.
\<close>

definition skipOk :: "string list option \<Rightarrow> bool" where
  "skipOk skipList = (case skipList of None \<Rightarrow> True | Some l \<Rightarrow> set l \<subseteq> {''frontyid''})"

section \<open>The keyed reorder \<^verbatim>\<open>[A, B, C]\<close> to \<^verbatim>\<open>[C, A, B]\<close>\<close>

lemma keyedReorder_nodes [simp]:
  "nodes keyedReorderStore 10 = Element ''UL'' [] 30 None None"
  "nodes keyedReorderStore 11 = keyedItem ''1'' 31"
  "nodes keyedReorderStore 12 = keyedItem ''2'' 32"
  "nodes keyedReorderStore 13 = keyedItem ''3'' 33"
  "nodes keyedReorderStore 20 = Element ''UL'' [] 40 None None"
  "nodes keyedReorderStore 21 = keyedItem ''3'' 41"
  "nodes keyedReorderStore 22 = keyedItem ''1'' 42"
  "nodes keyedReorderStore 23 = keyedItem ''2'' 43"
  by (simp_all add: keyedReorderStore_def)

lemma keyedReorder_lists [simp]:
  "lists keyedReorderStore 30 = [Some 11, Some 12, Some 13]"
  "lists keyedReorderStore 40 = [Some 21, Some 22, Some 23]"
  "lists keyedReorderStore 31 = []" "lists keyedReorderStore 32 = []"
  "lists keyedReorderStore 33 = []" "lists keyedReorderStore 41 = []"
  "lists keyedReorderStore 42 = []" "lists keyedReorderStore 43 = []"
  "fresh keyedReorderStore = 50"
  by (simp_all add: keyedReorderStore_def)

lemma allocated_keyedReorder [simp]:
  "nodes (allocated keyedReorderStore xs) = nodes keyedReorderStore"
  "lists (allocated keyedReorderStore xs) 50 = xs"
  "lists (allocated keyedReorderStore xs) 30 = [Some 11, Some 12, Some 13]"
  "lists (allocated keyedReorderStore xs) 40 = [Some 21, Some 22, Some 23]"
  "lists (allocated keyedReorderStore xs) 33 = []"
  "lists (allocated keyedReorderStore xs) 41 = []"
  by (simp_all add: allocated_def)

lemma keyedReorder_swap:
  "swapArrayElements 50 i (Some j) (allocated keyedReorderStore xs) =
     allocated keyedReorderStore (jsSet (jsSet xs i (jsGet xs j)) j (jsGet xs i))"
  by (simp add: swapArrayElements_def allocated_def)

lemma keyedReorder_index:
  "buildChildrenKeyIndex (allocated keyedReorderStore xs) 10 20 =
     Ok (keyedReorderIndex1, keyedReorderIndex2)"
  by (simp add: buildChildrenKeyIndex_def keyedItem_def keyedReorderIndex1_def
        keyedReorderIndex2_def numeral_2_eq_2)

lemma keyedReorder_keys [simp]:
  "keyIn (Some ''1'') keyedReorderIndex1" "keyIn (Some ''2'') keyedReorderIndex1"
  "keyIn (Some ''3'') keyedReorderIndex1" "keyIn (Some ''1'') keyedReorderIndex2"
  "keyIn (Some ''2'') keyedReorderIndex2" "keyIn (Some ''3'') keyedReorderIndex2"
  "lookupPos keyedReorderIndex1 (Some ''1'') = Some 0"
  "lookupPos keyedReorderIndex1 (Some ''3'') = Some 2"
  by (simp_all add: keyIn_def propertyKey_def lookupPos_def keyedReorderIndex1_def
        keyedReorderIndex2_def)

text \<open>
  Once C has been matched, the cursors are at position 1 of both lists and never move again: B
  at position 1 of the array is swapped with position 0 (where the table says A was), which
  brings C to position 1; C is swapped with position 0, which brings B back; and so on. The
  positions in the key table are those of the original list and are not updated by a swap.
\<close>

lemma keyedReorder_while:
  "compareChildren_while f None 10 20 50 keyedReorderIndex1 keyedReorderIndex2
      \<lparr>child1pos = Suc 0, child2pos = Suc 0, insertions = 0, deletions = 0\<rparr> r
      (allocated keyedReorderStore [Some 13, Some 12, Some 11]) = OutOfFuel \<and>
   compareChildren_while f None 10 20 50 keyedReorderIndex1 keyedReorderIndex2
      \<lparr>child1pos = Suc 0, child2pos = Suc 0, insertions = 0, deletions = 0\<rparr> r
      (allocated keyedReorderStore [Some 12, Some 13, Some 11]) = OutOfFuel"
proof (induction f arbitrary: r)
  case 0
  show ?case
    by (simp add: compareChildren_while.simps[of 0])
next
  case (Suc f)
  then show ?case
    by (simp add: compareChildren_while.simps[of "Suc f"] jsGet_def jsSet_def keyedItem_def
          keyedReorder_swap)
qed

lemma keyedReorder_leaf:
  "diff f None (Some 13) 21 (allocated keyedReorderStore xs) =
     Ok ([], allocated keyedReorderStore xs)"
  by (simp add: diff.simps policyAction_def keyedItem_def diffNode_def equalAttributes_def
        skipAttributes_def)

lemma keyedReorder_out_of_fuel:
  "diff fuel None (Some 10) 20 keyedReorderStore = OutOfFuel"
proof -
  let ?c0 = "\<lparr>child1pos = 0, child2pos = 0, insertions = 0, deletions = 0\<rparr>"
  have w: "compareChildren_while f None 10 20 50 keyedReorderIndex1 keyedReorderIndex2 ?c0 []
             (allocated keyedReorderStore [Some 11, Some 12, Some 13]) = OutOfFuel" for f
  proof (cases f)
    case 0
    then show ?thesis by (simp add: compareChildren_while.simps[of 0])
  next
    case f1: (Suc f1)
    show ?thesis
    proof (cases f1)
      case 0
      with f1 show ?thesis
        by (simp add: compareChildren_while.simps[of "Suc 0"] compareChildren_while.simps[of 0]
              jsGet_def jsSet_def keyedItem_def keyedReorder_swap)
    next
      case (Suc f2)
      with f1 keyedReorder_while[of f2] show ?thesis
        by (simp add: compareChildren_while.simps[of "Suc (Suc f2)"]
              compareChildren_while.simps[of "Suc f2"]
              jsGet_def jsSet_def keyedItem_def keyedReorder_swap keyedReorder_leaf)
    qed
  qed
  have "arrayFrom [Some 11, Some 12, Some 13] keyedReorderStore =
          (50, allocated keyedReorderStore [Some 11, Some 12, Some 13])"
    by (simp add: arrayFrom_def allocated_def)
  then have "compareChildren fuel None 10 20 [] keyedReorderStore = OutOfFuel"
    by (simp add: compareChildren.simps keyedReorder_index w)
  then show ?thesis
    by (simp add: diff.simps policyAction_def)
qed

text \<open>
  Claim C1. For the old keyed list \<^verbatim>\<open>[A(key=1), B(key=2), C(key=3)]\<close> and the new list
  \<^verbatim>\<open>[C(key=3), A(key=1), B(key=2)]\<close> the claim expects a patch list of \<^verbatim>\<open>swap-nodes\<close>
  operations only. On this input \<^verbatim>\<open>TreeComparator.diff\<close> returns no patch list at all:
  whatever the number of loop iterations allowed, the \<^verbatim>\<open>while\<close> loop of
  \<^verbatim>\<open>_compareChildren\<close> is still running.
\<close>

theorem keyed_reorder_returns_no_patches:
  "\<forall>fuel. diff fuel None (Some 10) 20 keyedReorderStore = OutOfFuel"
  by (simp add: keyedReorder_out_of_fuel)

text \<open>
  Claim C2. \<^verbatim>\<open>TreeComparator.diff\<close> is claimed to terminate on every pair of finite trees.
  The two three-element keyed lists of \<open>keyedReorderStore\<close> are finite trees on which no
  amount of fuel lets \<^verbatim>\<open>diff\<close> return a result or throw.
\<close>

theorem diff_does_not_terminate:
  "\<not> (\<exists>fuel. diff fuel None (Some 10) 20 keyedReorderStore \<noteq> OutOfFuel)"
  by (simp add: keyedReorder_out_of_fuel)

section \<open>Insertion into and removal from a keyed list\<close>

lemma keyedInsert_nodes [simp]:
  "nodes keyedInsertStore 10 = Element ''UL'' [] 30 None None"
  "nodes keyedInsertStore 11 = keyedItem ''1'' 31"
  "nodes keyedInsertStore 12 = keyedItem ''2'' 32"
  "nodes keyedInsertStore 20 = Element ''UL'' [] 40 None None"
  "nodes keyedInsertStore 21 = keyedItem ''1'' 41"
  "nodes keyedInsertStore 22 = keyedItem ''3'' 42"
  "nodes keyedInsertStore 23 = keyedItem ''2'' 43"
  by (simp_all add: keyedInsertStore_def)

lemma keyedInsert_lists [simp]:
  "lists keyedInsertStore 30 = [Some 11, Some 12]"
  "lists keyedInsertStore 40 = [Some 21, Some 22, Some 23]"
  "lists keyedInsertStore 31 = []" "lists keyedInsertStore 32 = []"
  "lists keyedInsertStore 41 = []" "lists keyedInsertStore 42 = []"
  "lists keyedInsertStore 43 = []"
  "fresh keyedInsertStore = 50"
  by (simp_all add: keyedInsertStore_def)


section \<open>The comparison policy decides before any comparison\<close>

lemma result_case_same [simp]:
  "(case r of Ok x \<Rightarrow> Ok x | Throw e \<Rightarrow> Throw e | OutOfFuel \<Rightarrow> OutOfFuel) = r"
  by (cases r) simp_all

text \<open>
  Claim C6. When the policy answers \<^verbatim>\<open>'SKIP'\<close> for a pair of nodes, \<^verbatim>\<open>diff\<close> returns the empty
  patch list. When it answers \<^verbatim>\<open>'REPLACE'\<close>, \<^verbatim>\<open>diff\<close> returns exactly one patch: the patch has no
  \<^verbatim>\<open>mode\<close>, its \<^verbatim>\<open>toReplace\<close> is \<^verbatim>\<open>node1\<close> and its \<^verbatim>\<open>replacement\<close> is \<^verbatim>\<open>node2\<close>, and applying it
  is the call \<^verbatim>\<open>node1.parentNode.replaceChild(node2, node1)\<close>, which puts \<^verbatim>\<open>node2\<close> with its
  subtree in the place of \<^verbatim>\<open>node1\<close> with its subtree. In both cases no child is looked at: the
  result needs no fuel, and the store is returned as the policy left it (a comparison of the
  children would have allocated an array).
\<close>

theorem diff_policy_skip_replace:
  "(comparePolicy node1 node2 s = Ok (SKIP, s1) \<longrightarrow>
      diff fuel (Some comparePolicy) node1 node2 s = Ok ([], s1)) \<and>
   (comparePolicy node1 node2 s = Ok (REPLACE, s1) \<longrightarrow>
      diff fuel (Some comparePolicy) node1 node2 s =
        Ok ([\<lparr>mode = None, toReplace = node1, replacement = Some node2, beforePos = None\<rparr>], s1) \<and>
      applyPatches plat
        [\<lparr>mode = None, toReplace = node1, replacement = Some node2, beforePos = None\<rparr>]
        skipList None s1 =
        (case node1 of
           None \<Rightarrow> Throw TypeError
         | Some n1 \<Rightarrow>
             (case dom_parentNode plat s1 n1 of
                None \<Rightarrow> Throw TypeError
              | Some parent \<Rightarrow> dom_replaceChild plat parent (Some node2) (Some n1) s1)))"
  by (auto simp: diff.simps policyAction_def replacePatch_def applyPatch_def
        split: option.splits result.splits)

text \<open>
  A policy that always answers \<^verbatim>\<open>'SKIP'\<close> and one that always answers \<^verbatim>\<open>'REPLACE'\<close>, on the two
  lists \<^verbatim>\<open>[A, B]\<close> and \<^verbatim>\<open>[B, A]\<close>, which differ.
\<close>

theorem diff_policy_skip_replace_witness:
  "(\<lambda>node1 node2 s. Ok (SKIP, s)) (Some 10) 20 keyedSwapStore = Ok (SKIP, keyedSwapStore) \<and>
   diff 0 (Some (\<lambda>node1 node2 s. Ok (SKIP, s))) (Some 10) 20 keyedSwapStore =
     Ok ([], keyedSwapStore) \<and>
   (\<lambda>node1 node2 s. Ok (REPLACE, s)) (Some 10) 20 keyedSwapStore = Ok (REPLACE, keyedSwapStore) \<and>
   diff 0 (Some (\<lambda>node1 node2 s. Ok (REPLACE, s))) (Some 10) 20 keyedSwapStore =
     Ok ([\<lparr>mode = None, toReplace = Some 10, replacement = Some 20, beforePos = None\<rparr>],
         keyedSwapStore)"
  using diff_policy_skip_replace[of "\<lambda>node1 node2 s. Ok (SKIP, s)" "Some 10" 20 keyedSwapStore
          keyedSwapStore 0]
        diff_policy_skip_replace[of "\<lambda>node1 node2 s. Ok (REPLACE, s)" "Some 10" 20 keyedSwapStore
          keyedSwapStore 0]
  by simp

section \<open>What \<^verbatim>\<open>diff\<close> writes to\<close>

lemma readOnly_None [simp]: "readOnly None"
  by (simp add: readOnly_def)

lemma frame_refl [simp]: "frame F s s"
  by (simp add: frame_def)

lemma frame_trans: "frame F s s' \<Longrightarrow> frame F s' s'' \<Longrightarrow> frame F s s''"
  by (auto simp: frame_def)

lemma frame_fresh: "frame F s s' \<Longrightarrow> F \<le> fresh s \<Longrightarrow> F \<le> fresh s'"
  by (auto simp: frame_def)

lemma frame_arrayFrom: "F \<le> fresh s \<Longrightarrow> frame F s (snd (arrayFrom xs s))"
  by (auto simp: frame_def arrayFrom_def)

lemma arrayFrom_fresh: "arrayFrom xs s = (a, s1) \<Longrightarrow> a = fresh s \<and> fresh s \<le> fresh s1"
  by (auto simp: arrayFrom_def)

lemma frame_swap: "F \<le> a \<Longrightarrow> frame F s (swapArrayElements a i j s)"
  by (auto simp: frame_def swapArrayElements_def Let_def split: option.splits)

text \<open>
  What one iteration of the \<^verbatim>\<open>while\<close> loop does to the store: it ends the loop, or it swaps two
  entries of \<^verbatim>\<open>child1Array\<close> and goes on, or it goes on with the same store, or it calls \<^verbatim>\<open>diff\<close>
  on the two current children and goes on with the store that call returns.
\<close>

lemma while_Suc_cases [consumes 1, case_names finished swap advance recurse]:
  assumes "compareChildren_while (Suc f) p m1 m2 a i1 i2 c r s = Ok (ps, s')"
  obtains
    "ps = r @ remainingChildren s m1 m2 c" "s' = s"
  | r' j where "compareChildren_while f p m1 m2 a i1 i2 c r'
                  (swapArrayElements a (child1pos c) j s) = Ok (ps, s')"
  | c' r' where "compareChildren_while f p m1 m2 a i1 i2 c' r' s = Ok (ps, s')"
  | child1 child2 partial s1 where
      "diff f p (Some child1) child2 s = Ok (partial, s1)"
      "compareChildren_while f p m1 m2 a i1 i2
         (c\<lparr>child1pos := Suc (child1pos c), child2pos := Suc (child2pos c)\<rparr>) (r @ partial) s1
       = Ok (ps, s')"
proof -
  note R = that
  note A = assms[unfolded compareChildren_while.simps[of "Suc f" p m1 m2 a i1 i2 c r s]]
  show thesis
  proof (cases "child1pos c < length (childNodes s (nodes s m1)) \<and>
                child2pos c < length (childNodes s (nodes s m2))")
    case False
    with A have "ps = r @ remainingChildren s m1 m2 c" "s' = s" by auto
    then show thesis by (rule R(1))
  next
    case inloop: True
    show thesis
    proof (cases "jsGet (lists s a) (child1pos c)")
      case None
      with A inloop show thesis by simp
    next
      case c1: (Some child1)
      show thesis
      proof (cases "jsGet (childNodes s (nodes s m2)) (child2pos c)")
        case None
        with A inloop c1 show thesis by simp
      next
        case c2: (Some child2)
        let ?key1 = "getAttribute (nodes s child1) ''key''"
        let ?key2 = "getAttribute (nodes s child2) ''key''"
        have rec: thesis
          if "diff f p (Some child1) child2 s = Ok (partial, s1)"
             "compareChildren_while f p m1 m2 a i1 i2
                (c\<lparr>child1pos := Suc (child1pos c), child2pos := Suc (child2pos c)\<rparr>)
                (r @ partial) s1 = Ok (ps, s')"
          for partial s1 using that by (rule R(4))
        show thesis
        proof (cases "nodeType (nodes s child1) = ELEMENT_NODE \<and>
                      nodeType (nodes s child2) = ELEMENT_NODE")
          case both: True
          show thesis
          proof (cases "?key1 \<noteq> ?key2")
            case differ: True
            show thesis
            proof (cases "keyIn ?key1 i2 \<and> keyIn ?key2 i1")
              case True
              with A inloop c1 c2 both differ show thesis
                by (simp add: Let_def) (erule R(2))
            next
              case False
              with A inloop c1 c2 both differ show thesis
                by (simp add: Let_def split: prod.splits) (erule R(3))
            qed
          next
            case False
            with A inloop c1 c2 both show thesis
              by (simp add: Let_def split: result.splits prod.splits) (auto intro: rec)
          qed
        next
          case notboth: False
          show thesis
          proof (cases "nodeType (nodes s child1) \<noteq> ELEMENT_NODE \<and>
                        nodeType (nodes s child2) = ELEMENT_NODE")
            case True
            with A inloop c1 c2 show thesis
              by simp (erule R(3))
          next
            case nr: False
            show thesis
            proof (cases "nodeType (nodes s child1) = ELEMENT_NODE \<and>
                          nodeType (nodes s child2) \<noteq> ELEMENT_NODE")
              case True
              with A inloop c1 c2 show thesis
                by simp (erule R(3))
            next
              case False
              with A inloop c1 c2 notboth nr show thesis
                by (simp split: result.splits prod.splits) (auto intro: rec)
            qed
          qed
        qed
      qed
    qed
  qed
qed

lemma while_0_Ok:
  "compareChildren_while 0 p m1 m2 a i1 i2 c r s = Ok (ps, s') \<Longrightarrow> s' = s"
  by (simp add: compareChildren_while.simps[of 0] split: if_splits)

lemma compareChildren_Ok:
  assumes "compareChildren f p m1 m2 r s = Ok (ps, s')"
  obtains a s1 i1 i2 where "arrayFrom (childNodes s (nodes s m1)) s = (a, s1)"
    "compareChildren_while f p m1 m2 a i1 i2
       \<lparr>child1pos = 0, child2pos = 0, insertions = 0, deletions = 0\<rparr> r s1 = Ok (ps, s')"
  using assms
  by (auto simp: compareChildren.simps[of f] split: prod.splits result.splits)

lemma diff_Ok:
  assumes "diff f p n1 n2 s = Ok (ps, s')"
  obtains a where "policyAction p n1 n2 s = Ok (a, s')"
  | a s0 m1 r where "policyAction p n1 n2 s = Ok (a, s0)" "n1 = Some m1"
      "compareChildren f p m1 n2 [] s0 = Ok (r, s')"
  using assms
  by (auto simp: diff.simps[of f] split: action.splits option.splits if_splits result.splits)

lemma readOnly_policyAction:
  "readOnly p \<Longrightarrow> policyAction p n1 n2 s = Ok (a, s0) \<Longrightarrow> s0 = s"
  by (auto simp: readOnly_def policyAction_def split: option.splits)

lemma while_frame:
  assumes ro: "readOnly p"
  shows "compareChildren_while f p m1 m2 a i1 i2 c r s = Ok (ps, s') \<Longrightarrow> F \<le> a \<Longrightarrow>
         F \<le> fresh s \<Longrightarrow> frame F s s'"
proof (induction f arbitrary: m1 m2 a i1 i2 c r s ps s')
  case 0
  then show ?case by (auto dest: while_0_Ok)
next
  case (Suc f)
  have cc: "frame F t t'" if "compareChildren f p k1 k2 q t = Ok (qs, t')" "F \<le> fresh t"
    for k1 k2 q t qs t'
    using that(1)
  proof (cases rule: compareChildren_Ok)
    case (1 b t1 j1 j2)
    from 1(1) that(2) have "F \<le> b" "F \<le> fresh t1" by (auto dest: arrayFrom_fresh)
    with 1(2) have "frame F t1 t'" by (rule Suc.IH)
    moreover from frame_arrayFrom[OF that(2), of "childNodes t (nodes t k1)"] 1(1)
    have "frame F t t1" by simp
    ultimately show ?thesis by (rule frame_trans[rotated])
  qed
  have d: "frame F t t'" if "diff f p k1 k2 t = Ok (qs, t')" "F \<le> fresh t" for k1 k2 t qs t'
    using that(1)
  proof (cases rule: diff_Ok)
    case (1 b)
    with ro have "t' = t" by (auto dest: readOnly_policyAction)
    then show ?thesis by simp
  next
    case (2 b t0 m q)
    with ro have "t0 = t" by (auto dest: readOnly_policyAction)
    with 2(3) that(2) show ?thesis by (auto intro: cc)
  qed
  from Suc.prems(1) show ?case
  proof (cases rule: while_Suc_cases)
    case finished
    then show ?thesis by simp
  next
    case (swap r' j)
    have "frame F (swapArrayElements a (child1pos c) j s) s'"
      using swap Suc.prems(2) Suc.prems(3)
      by (intro Suc.IH) (auto simp: swapArrayElements_def Let_def split: option.splits)
    with frame_swap[OF Suc.prems(2)] show ?thesis by (rule frame_trans)
  next
    case (advance c' r')
    then show ?thesis using Suc.prems by (intro Suc.IH)
  next
    case (recurse child1 child2 partial s1)
    from recurse(1) Suc.prems(3) have f1: "frame F s s1" by (rule d)
    with Suc.prems(3) have "F \<le> fresh s1" by (auto dest: frame_fresh)
    with recurse(2) Suc.prems(2) have "frame F s1 s'" by (intro Suc.IH)
    with f1 show ?thesis by (rule frame_trans)
  qed
qed

lemma diff_frame:
  assumes "diff f p n1 n2 s = Ok (ps, s')" and ro: "readOnly p"
  shows "frame (fresh s) s s'"
  using assms(1)
proof (cases rule: diff_Ok)
  case (1 b)
  with ro have "s' = s" by (auto dest: readOnly_policyAction)
  then show ?thesis by simp
next
  case (2 b s0 m1 r)
  with ro have s0: "s0 = s" by (auto dest: readOnly_policyAction)
  from 2(3)[unfolded s0] show ?thesis
  proof (cases rule: compareChildren_Ok)
    case (1 a s1 i1 i2)
    from 1(1) have "fresh s \<le> a" "fresh s \<le> fresh s1" by (auto dest: arrayFrom_fresh)
    with 1(2) have "frame (fresh s) s1 s'" by (rule while_frame[OF ro])
    moreover from frame_arrayFrom[of "fresh s" s "childNodes s (nodes s m1)"] 1(1)
    have "frame (fresh s) s s1" by simp
    ultimately show ?thesis by (rule frame_trans[rotated])
  qed
qed

section \<open>\<^verbatim>\<open>diff\<close> and its input trees\<close>

lemma keyedSwap_nodes [simp]:
  "nodes keyedSwapStore 10 = Element ''UL'' [] 30 None None"
  "nodes keyedSwapStore 11 = keyedItem ''1'' 31"
  "nodes keyedSwapStore 12 = keyedItem ''2'' 32"
  "nodes keyedSwapStore 20 = Element ''UL'' [] 40 None None"
  "nodes keyedSwapStore 21 = keyedItem ''2'' 41"
  "nodes keyedSwapStore 22 = keyedItem ''1'' 42"
  by (simp_all add: keyedSwapStore_def)

lemma keyedSwap_lists [simp]:
  "lists keyedSwapStore 30 = [Some 11, Some 12]"
  "lists keyedSwapStore 40 = [Some 21, Some 22]"
  "lists keyedSwapStore 31 = []" "lists keyedSwapStore 32 = []"
  "lists keyedSwapStore 41 = []" "lists keyedSwapStore 42 = []"
  "fresh keyedSwapStore = 50"
  by (simp_all add: keyedSwapStore_def)


lemma keyedSwap_diff:
  "diff (Suc (Suc (Suc fuel))) None (Some 10) 20 keyedSwapStore =
     Ok ([swapNodesPatch 11 (Some 12)], allocated keyedSwapStore [Some 12, Some 11])"
  by (simp add: diff.simps compareChildren.simps compareChildren_while.simps policyAction_def
        arrayFrom_def allocated_def buildChildrenKeyIndex_def keyedItem_def jsGet_def jsSet_def
        keyIn_def lookupPos_def propertyKey_def objectPrototypeKeys_def insertOrRemove_def
        remainingChildren_def diffNode_def equalAttributes_def skipAttributes_def
        swapArrayElements_def)




section \<open>Applying a \<^verbatim>\<open>node-value\<close> patch\<close>


lemma not_digit_hash [simp]: "\<not> isDigit CHR ''#''"
  by (simp add: isDigit_def)





section \<open>\<^verbatim>\<open>Model.set\<close> and the notification of observers\<close>

text \<open>
  Claim C10. \<^verbatim>\<open>set(update, hint)\<close> is claimed to invoke each observer that is registered when
  the notification starts exactly once. The model \<open>twoObservers\<close> has the observers 0 and 1
  registered, and the update callback leaves it as it is. \<^verbatim>\<open>notifyObservers\<close> calls observer 0
  on the model with the hint; observer 0 removes itself; the loop index is then 1 and the
  array has one entry, so that the loop ends. The only call made is the call of observer 0:
  observer 1, which is registered before, during and after the notification, is not invoked,
  whatever the number of loop iterations allowed (one is needed).
\<close>

theorem set_skips_observer_after_self_removal:
  "observers twoObservers = [0, 1] \<and>
   set_model (Suc fuel) selfRemoving Ok None twoObservers =
     Ok ([(0, twoObservers, None)], twoObservers\<lparr>observers := [1]\<rparr>)"
  by (simp add: set_model_def notifyObservers_def selfRemoving_def twoObservers_def
        removeObserver_def)

section \<open>Applying an \<^verbatim>\<open>attributes\<close> patch\<close>

lemma map_of_setAttr: "map_of (setAttr a v as) = (map_of as)(a \<mapsto> v)"
  by (induction as) (auto simp: fun_eq_iff)

lemma names_setAttr: "fst ` set (setAttr a v as) = insert a (fst ` set as)"
  by (induction as) auto

lemma distinct_setAttr: "distinct (map fst as) \<Longrightarrow> distinct (map fst (setAttr a v as))"
proof (induction as)
  case Nil
  then show ?case by simp
next
  case (Cons b as)
  then show ?case
    using names_setAttr[of a v as] by auto
qed

lemma distinct_take_drop: "distinct xs \<Longrightarrow> distinct (take j xs @ drop (Suc j) xs)"
proof (induction xs arbitrary: j)
  case Nil
  then show ?case by simp
next
  case (Cons x xs)
  show ?case
  proof (cases j)
    case 0
    with Cons.prems show ?thesis by simp
  next
    case (Suc i)
    with Cons show ?thesis
      by (auto dest: in_set_takeD in_set_dropD)
  qed
qed

lemma removeAttr_nth:
  "distinct (map fst as) \<Longrightarrow> j < length as \<Longrightarrow>
     removeAttr (fst (as ! j)) as = take j as @ drop (Suc j) as"
proof (induction as arbitrary: j)
  case Nil
  then show ?case by simp
next
  case (Cons a as)
  show ?case
  proof (cases j)
    case 0
    then show ?thesis by simp
  next
    case (Suc i)
    with Cons.prems have i: "i < length as" by simp
    then have m: "fst (as ! i) \<in> fst ` set as" by simp
    from Cons.prems(1) have "fst a \<notin> fst ` set as" by simp
    with m have ne: "fst a \<noteq> fst (as ! i)" by metis
    from Cons.prems(1) have "distinct (map fst as)" by simp
    from Cons.IH[OF this i] ne Suc show ?thesis by simp
  qed
qed

lemma map_of_filter_names:
  "map_of (filter (\<lambda>a. P (fst a)) as) nm = (if P nm then map_of as nm else None)"
  by (induction as) auto


lemma nodeType_patchAttribute [simp]:
  "nodeType (patchAttribute skipList a n) = nodeType n"
  by (cases n) auto

lemma getAttribute_patchAttribute:
  assumes "skipOk skipList" "nm \<noteq> ''frontyid''" "nodeType n = ELEMENT_NODE"
  shows "getAttribute (patchAttribute skipList a n) nm =
           (if nm = fst a then Some (snd a) else getAttribute n nm)"
  using assms
  by (cases n) (auto simp: skipOk_def map_of_setAttr split: option.splits)

lemma distinct_patchAttribute:
  "attributes n = Some as \<Longrightarrow> distinct (map fst as) \<Longrightarrow>
     \<exists>as'. attributes (patchAttribute skipList a n) = Some as' \<and> distinct (map fst as')"
  by (cases n) (auto simp: distinct_setAttr)

lemma distinct_fold_patchAttribute:
  "attributes n = Some as \<Longrightarrow> distinct (map fst as) \<Longrightarrow>
     \<exists>as'. attributes (fold (patchAttribute skipList) bs n) = Some as' \<and> distinct (map fst as')"
proof (induction bs arbitrary: n as)
  case Nil
  then show ?case by simp
next
  case (Cons b bs)
  from distinct_patchAttribute[OF Cons.prems, of skipList b]
  obtain as' where "attributes (patchAttribute skipList b n) = Some as'" "distinct (map fst as')"
    by blast
  from Cons.IH[OF this] show ?case by simp
qed

lemma getAttribute_fold_patchAttribute:
  assumes "skipOk skipList" "nm \<noteq> ''frontyid''"
  shows "nodeType n = ELEMENT_NODE \<Longrightarrow> distinct (map fst bs) \<Longrightarrow>
         getAttribute (fold (patchAttribute skipList) bs n) nm =
           (case map_of bs nm of Some v \<Rightarrow> Some v | None \<Rightarrow> getAttribute n nm)"
proof (induction bs arbitrary: n)
  case Nil
  then show ?case by simp
next
  case (Cons b bs)
  have e: "nodeType (patchAttribute skipList b n) = ELEMENT_NODE"
    using Cons.prems(1) by simp
  from Cons.prems(2) have d: "distinct (map fst bs)" and nb: "fst b \<notin> fst ` set bs" by auto
  from nb have none: "map_of bs (fst b) = None" by (simp add: map_of_eq_None_iff)
  show ?case
    using Cons.IH[OF e d] none
    by (cases b) (auto simp: getAttribute_patchAttribute[OF assms Cons.prems(1)]
          split: option.splits)
qed

lemma setAttributes_fold:
  assumes "target \<noteq> repl" and "attributes (nodes s repl) = Some as2"
  shows "nodeType (nodes s target) = ELEMENT_NODE \<Longrightarrow> length as2 - i = k \<Longrightarrow>
         attributes (nodes s repl) = Some as2 \<Longrightarrow>
         \<exists>s'. setAttributes i skipList target repl s = Ok s' \<and>
              nodes s' target = fold (patchAttribute skipList) (drop i as2) (nodes s target) \<and>
              (\<forall>n. n \<noteq> target \<longrightarrow> nodes s' n = nodes s n) \<and> lists s' = lists s \<and>
              fresh s' = fresh s"
proof (induction k arbitrary: i s)
  case 0
  then show ?case by simp
next
  case (Suc k)
  then have i: "i < length as2" by simp
  let ?s1 = "s\<lparr>nodes := (nodes s)(target := patchAttribute skipList (as2 ! i) (nodes s target))\<rparr>"
  have 1: "nodeType (nodes ?s1 target) = ELEMENT_NODE" using Suc.prems(1) by simp
  have 2: "length as2 - Suc i = k" using Suc.prems(2) by simp
  have 3: "attributes (nodes ?s1 repl) = Some as2" using Suc.prems(3) assms(1) by simp
  from Suc.IH[OF 1 2 3] obtain s' where s':
    "setAttributes (Suc i) skipList target repl ?s1 = Ok s'"
    "nodes s' target = fold (patchAttribute skipList) (drop (Suc i) as2) (nodes ?s1 target)"
    "\<forall>n. n \<noteq> target \<longrightarrow> nodes s' n = nodes ?s1 n" "lists s' = lists ?s1" "fresh s' = fresh ?s1"
    by blast
  have "setAttributes i skipList target repl s = Ok s'"
    using i Suc.prems(1,3) s'(1) by (subst setAttributes.simps) simp
  moreover have "nodes s' target = fold (patchAttribute skipList) (drop i as2) (nodes s target)"
    using s'(2) i by (simp add: Cons_nth_drop_Suc[symmetric])
  ultimately show ?case using s'(3,4,5) by (intro exI[of _ s']) auto
qed

lemma removeAttributes_filter:
  assumes "target \<noteq> repl" and "attributes (nodes s0 repl) = Some as2"
  shows "nodes s target = Element t as c v k \<Longrightarrow> distinct (map fst as) \<Longrightarrow> j \<le> length as \<Longrightarrow>
         nodes s repl = nodes s0 repl \<Longrightarrow>
         \<exists>s' k'. removeAttributes j target repl s = Ok s' \<and>
              nodes s' target =
                Element t (filter (\<lambda>a. hasAttr (fst a) as2) (take j as) @ drop j as) c v k' \<and>
              (\<forall>n. n \<noteq> target \<longrightarrow> nodes s' n = nodes s n) \<and> lists s' = lists s \<and>
              fresh s' = fresh s"
proof (induction j arbitrary: s as k)
  case 0
  then show ?case by simp
next
  case (Suc j)
  from Suc.prems(3) have j: "j < length as" by simp
  have r: "attributes (nodes s repl) = Some as2" using Suc.prems(4) assms(2) by simp
  have tk: "take (Suc j) as = take j as @ [as ! j]" using j by (simp add: take_Suc_conv_app_nth)
  show ?case
  proof (cases "hasAttr (fst (as ! j)) as2")
    case True
    from Suc.prems(3) have "j \<le> length as" by simp
    from Suc.IH[OF Suc.prems(1,2) this Suc.prems(4)] obtain s' k' where s':
      "removeAttributes j target repl s = Ok s'"
      "nodes s' target = Element t (filter (\<lambda>a. hasAttr (fst a) as2) (take j as) @ drop j as) c v k'"
      "\<forall>n. n \<noteq> target \<longrightarrow> nodes s' n = nodes s n" "lists s' = lists s" "fresh s' = fresh s"
      by blast
    have "removeAttributes (Suc j) target repl s = Ok s'"
      using Suc.prems(1) j r True s'(1) by simp
    moreover have "filter (\<lambda>a. hasAttr (fst a) as2) (take (Suc j) as) @ drop (Suc j) as =
                   filter (\<lambda>a. hasAttr (fst a) as2) (take j as) @ drop j as"
      using True j by (simp add: tk Cons_nth_drop_Suc)
    ultimately show ?thesis using s'(2-5) by (intro exI[of _ s'] exI[of _ k']) simp
  next
    case False
    let ?as = "take j as @ drop (Suc j) as"
    let ?k = "if fst (as ! j) = ''checked'' then Some False else k"
    let ?s1 = "s\<lparr>nodes := (nodes s)(target := Element t ?as c v ?k)\<rparr>"
    have ra: "removeAttr (fst (as ! j)) as = ?as"
      using Suc.prems(2) j by (rule removeAttr_nth)
    have 1: "nodes ?s1 target = Element t ?as c v ?k" by simp
    have 2: "distinct (map fst ?as)"
      using distinct_take_drop[OF Suc.prems(2), of j] by (simp add: take_map drop_map)
    have 3: "j \<le> length ?as" using j by simp
    have 4: "nodes ?s1 repl = nodes s0 repl" using Suc.prems(4) assms(1) by simp
    from Suc.IH[OF 1 2 3 4] obtain s' k' where s':
      "removeAttributes j target repl ?s1 = Ok s'"
      "nodes s' target = Element t (filter (\<lambda>a. hasAttr (fst a) as2) (take j ?as) @ drop j ?as) c v k'"
      "\<forall>n. n \<noteq> target \<longrightarrow> nodes s' n = nodes ?s1 n" "lists s' = lists ?s1" "fresh s' = fresh ?s1"
      by blast
    have "removeAttributes (Suc j) target repl s = Ok s'"
      using Suc.prems(1) j r False s'(1) ra by simp
    moreover have "filter (\<lambda>a. hasAttr (fst a) as2) (take (Suc j) as) @ drop (Suc j) as =
                   filter (\<lambda>a. hasAttr (fst a) as2) (take j ?as) @ drop j ?as"
      using False j by (simp add: tk min_def)
    ultimately show ?thesis using s'(2-5) by (intro exI[of _ s'] exI[of _ k']) auto
  qed
qed


lemma sameAttributesAt_eq:
  "length as = length bs \<Longrightarrow> sameAttributesAt as bs = (as = bs)"
  by (induction as bs rule: sameAttributesAt.induct) (auto simp: prod_eq_iff)

lemma equalAttributes_elements:
  "equalAttributes (Element t1 as1 c1 v1 k1) (Element t2 as2 c2 v2 k2) =
     (filter skipAttributes as1 = filter skipAttributes as2)"
  by (auto simp: equalAttributes_def Let_def sameAttributesAt_eq)

lemma equalAttributes_getAttribute:
  assumes "equalAttributes (Element t1 as1 c1 v1 k1) (Element t2 as2 c2 v2 k2)"
      and "nm \<noteq> ''frontyid''"
  shows "map_of as1 nm = map_of as2 nm"
proof -
  from assms(1) have "filter (\<lambda>a. fst a \<noteq> ''frontyid'') as1 = filter (\<lambda>a. fst a \<noteq> ''frontyid'') as2"
    by (simp add: equalAttributes_elements skipAttributes_def[abs_def])
  then have "map_of (filter (\<lambda>a. fst a \<noteq> ''frontyid'') as1) nm =
             map_of (filter (\<lambda>a. fst a \<noteq> ''frontyid'') as2) nm" by simp
  with assms(2) show ?thesis
    by (simp add: map_of_filter_names[of "\<lambda>x. x \<noteq> ''frontyid''"])
qed

lemma diff_elements:
  assumes "diff fuel None (Some n1) n2 s = Ok (ps, s')"
      and "nodes s n1 = Element t as1 c1 v1 k1" "nodes s n2 = Element t as2 c2 v2 k2"
  shows "\<exists>r. ps = (if equalAttributes (nodes s n1) (nodes s n2) then r
                    else r @ [attributesPatch n1 n2])"
proof -
  from diff_frame[OF assms(1) readOnly_None] have n: "nodes s' = nodes s"
    by (simp add: frame_def)
  have dn: "diffNode s' n1 n2 r = (if equalAttributes (nodes s n1) (nodes s n2) then r
              else r @ [attributesPatch n1 n2])" for r
    by (simp add: diffNode_def n assms(2,3))
  have eq: "diff fuel None (Some n1) n2 s =
      (if 0 < length (lists s c1) \<or> 0 < length (lists s c2)
       then (case compareChildren fuel None n1 n2 [] s of
               Ok (result, s') \<Rightarrow> Ok (diffNode s' n1 n2 result, s')
             | Throw e \<Rightarrow> Throw e
             | OutOfFuel \<Rightarrow> OutOfFuel)
       else Ok (diffNode s n1 n2 [], s))"
    by (simp add: diff.simps[of fuel] policyAction_def assms(2,3))
  show ?thesis
  proof (cases "0 < length (lists s c1) \<or> 0 < length (lists s c2)")
    case True
    with assms(1) eq obtain result where "ps = diffNode s' n1 n2 result"
      by (cases "compareChildren fuel None n1 n2 [] s") auto
    with dn show ?thesis by blast
  next
    case False
    with assms(1) eq have "ps = diffNode s' n1 n2 []" by auto
    with dn show ?thesis by blast
  qed
qed

lemma applyPatches_attributes_result:
  assumes T: "nodes s T = Element t as1 c1 v1 k1"
      and T2: "attributes (nodes s T2) = Some as2"
      and d1: "distinct (map fst as1)" and d2: "distinct (map fst as2)"
      and ne: "T \<noteq> T2" and skip: "skipOk skipList"
  shows "\<exists>s'. applyPatches_attributes skipList (Some T) (Some T2) s = Ok s' \<and>
           (\<forall>nm. nm \<noteq> ''frontyid'' \<longrightarrow> getAttribute (nodes s' T) nm = map_of as2 nm) \<and>
           (\<forall>n. n \<noteq> T \<longrightarrow> nodes s' n = nodes s n) \<and> lists s' = lists s"
proof -
  have e: "nodeType (nodes s T) = ELEMENT_NODE" using T by simp
  from setAttributes_fold[OF ne T2 e refl T2, of 0 skipList] obtain s1 where s1:
    "setAttributes 0 skipList T T2 s = Ok s1"
    "nodes s1 T = fold (patchAttribute skipList) as2 (nodes s T)"
    "\<forall>n. n \<noteq> T \<longrightarrow> nodes s1 n = nodes s n" "lists s1 = lists s"
    by auto
  from T have "attributes (nodes s T) = Some as1" by simp
  from distinct_fold_patchAttribute[OF this d1, of skipList as2] s1(2)
  obtain as' where as': "attributes (nodes s1 T) = Some as'" "distinct (map fst as')" by auto
  then obtain t' c' v' k' where T': "nodes s1 T = Element t' as' c' v' k'"
    by (cases "nodes s1 T") auto
  have g1: "map_of as' nm = (case map_of as2 nm of Some v \<Rightarrow> Some v | None \<Rightarrow> map_of as1 nm)"
    if "nm \<noteq> ''frontyid''" for nm
  proof -
    have "getAttribute (nodes s1 T) nm =
            (case map_of as2 nm of Some v \<Rightarrow> Some v | None \<Rightarrow> getAttribute (nodes s T) nm)"
      unfolding s1(2) by (rule getAttribute_fold_patchAttribute[OF skip that e d2])
    then show ?thesis by (simp add: T' T split: option.splits)
  qed
  from s1(3) ne have r: "nodes s1 T2 = nodes s T2" by simp
  with T2 have T2': "attributes (nodes s1 T2) = Some as2" by simp
  from removeAttributes_filter[OF ne T2' T' as'(2) order_refl refl] obtain s' k'' where s':
    "removeAttributes (length as') T T2 s1 = Ok s'"
    "nodes s' T = Element t' (filter (\<lambda>a. hasAttr (fst a) as2) as') c' v' k''"
    "\<forall>n. n \<noteq> T \<longrightarrow> nodes s' n = nodes s1 n" "lists s' = lists s1"
    by auto
  have a: "applyPatches_attributes skipList (Some T) (Some T2) s = Ok s'"
    using s1(1) as'(1) s'(1) by (simp add: applyPatches_attributes_def)
  have g: "getAttribute (nodes s' T) nm = map_of as2 nm" if "nm \<noteq> ''frontyid''" for nm
  proof -
    have "getAttribute (nodes s' T) nm = map_of (filter (\<lambda>a. hasAttr (fst a) as2) as') nm"
      by (simp add: s'(2))
    also have "\<dots> = (if hasAttr nm as2 then map_of as' nm else None)"
      by (rule map_of_filter_names)
    also have "\<dots> = map_of as2 nm"
    proof (cases "map_of as2 nm")
      case None
      then show ?thesis by (simp add: hasAttr_def)
    next
      case (Some w)
      with g1[OF that] have "map_of as' nm = Some w" by simp
      with Some show ?thesis by (simp add: hasAttr_def)
    qed
    finally show ?thesis .
  qed
  show ?thesis
  proof (intro exI[of _ s'] conjI allI impI)
    show "applyPatches_attributes skipList (Some T) (Some T2) s = Ok s'" by (rule a)
  next
    fix nm :: string
    assume "nm \<noteq> ''frontyid''"
    then show "getAttribute (nodes s' T) nm = map_of as2 nm" by (rule g)
  next
    fix n
    assume "n \<noteq> T"
    with s'(3) s1(3) show "nodes s' n = nodes s n" by simp
  next
    show "lists s' = lists s" using s'(4) s1(4) by simp
  qed
qed

text \<open>
  Claim C8. Let T1 and T2 be elements with the same tag name, each attribute name occurring once
  in an element, and let \<^verbatim>\<open>diff(T1, T2)\<close> return a patch list. An \<^verbatim>\<open>attributes\<close> patch of the
  pair is a patch of that list whose \<^verbatim>\<open>mode\<close> is \<^verbatim>\<open>'attributes'\<close>, whose \<^verbatim>\<open>toReplace\<close> is T1 and
  whose \<^verbatim>\<open>replacement\<close> is T2. Let \<open>T\<close> be an element with the attributes of T1, a copy of T1
  or T1 itself, and let \<^verbatim>\<open>applyPatches\<close> be called with that one patch, with \<^verbatim>\<open>skipAttributes\<close>
  undefined or \<^verbatim>\<open>['frontyid']\<close>, and with a \<^verbatim>\<open>patchMapping\<close> that directs the patch to \<open>T\<close> (as
  \<^verbatim>\<open>_renderNewTree\<close> directs a patch to the node of the page). Then the call succeeds and
  leaves \<open>T\<close> with, for every attribute name other than \<^verbatim>\<open>frontyid\<close>, the value that T2 has, or
  without that attribute when T2 has none; T2 is not changed. Without a \<^verbatim>\<open>patchMapping\<close> the
  patch is applied to T1 itself, with the same result. If the list holds no \<^verbatim>\<open>attributes\<close>
  patch of the pair, T1 and T2 agree on every attribute other than \<^verbatim>\<open>frontyid\<close> already.
\<close>

theorem attributes_patch_roundtrip:
  assumes T1: "nodes s T1 = Element t as1 c1 v1 k1"
      and T2: "nodes s T2 = Element t as2 c2 v2 k2"
      and d1: "distinct (map fst as1)" and d2: "distinct (map fst as2)"
      and T: "nodes s T = Element t' as1 c v k" and ne: "T \<noteq> T2"
      and skip: "skipOk skipList"
      and df: "diff fuel None (Some T1) T2 s = Ok (patches, s1)"
  shows "(\<forall>p\<in>set patches.
            mode p = Some ATTRIBUTES \<and> toReplace p = Some T1 \<and> replacement p = Some T2 \<longrightarrow>
            (\<exists>s'. applyPatches plat [p] skipList
                     (Some (\<lambda>q u. Ok (q\<lparr>toReplace := Some T\<rparr>, u))) s1 = Ok s' \<and>
                   (\<forall>nm. nm \<noteq> ''frontyid'' \<longrightarrow>
                      getAttribute (nodes s' T) nm = getAttribute (nodes s' T2) nm) \<and>
                   nodes s' T2 = nodes s T2) \<and>
            (T1 \<noteq> T2 \<longrightarrow>
              (\<exists>s'. applyPatches plat [p] skipList None s1 = Ok s' \<and>
                   (\<forall>nm. nm \<noteq> ''frontyid'' \<longrightarrow>
                      getAttribute (nodes s' T1) nm = getAttribute (nodes s' T2) nm) \<and>
                   nodes s' T2 = nodes s T2))) \<and>
         ((\<forall>p\<in>set patches.
             \<not> (mode p = Some ATTRIBUTES \<and> toReplace p = Some T1 \<and> replacement p = Some T2)) \<longrightarrow>
            (\<forall>nm. nm \<noteq> ''frontyid'' \<longrightarrow>
               getAttribute (nodes s T1) nm = getAttribute (nodes s T2) nm))"
proof -
  from diff_frame[OF df readOnly_None] have n: "nodes s1 = nodes s" by (simp add: frame_def)
  have app: "\<exists>s'. applyPatches_attributes skipList (Some X) (Some T2) s1 = Ok s' \<and>
                   (\<forall>nm. nm \<noteq> ''frontyid'' \<longrightarrow>
                      getAttribute (nodes s' X) nm = getAttribute (nodes s' T2) nm) \<and>
                   nodes s' T2 = nodes s T2"
    if X: "nodes s X = Element tx as1 cx vx kx" and nx: "X \<noteq> T2" for X tx cx vx kx
  proof -
    have "nodes s1 X = Element tx as1 cx vx kx" "attributes (nodes s1 T2) = Some as2"
      using n X T2 by simp_all
    from applyPatches_attributes_result[OF this d1 d2 nx skip] obtain s' where s':
      "applyPatches_attributes skipList (Some X) (Some T2) s1 = Ok s'"
      "\<forall>nm. nm \<noteq> ''frontyid'' \<longrightarrow> getAttribute (nodes s' X) nm = map_of as2 nm"
      "\<forall>n. n \<noteq> X \<longrightarrow> nodes s' n = nodes s1 n" by blast
    from s'(3) nx n have r: "nodes s' T2 = nodes s T2" by simp
    with T2 have "getAttribute (nodes s' T2) nm = map_of as2 nm" for nm by simp
    with s'(1,2) r show ?thesis by (intro exI[of _ s']) simp
  qed
  have A: "(\<exists>s'. applyPatches plat [p] skipList
                     (Some (\<lambda>q u. Ok (q\<lparr>toReplace := Some T\<rparr>, u))) s1 = Ok s' \<and>
                   (\<forall>nm. nm \<noteq> ''frontyid'' \<longrightarrow>
                      getAttribute (nodes s' T) nm = getAttribute (nodes s' T2) nm) \<and>
                   nodes s' T2 = nodes s T2) \<and>
            (T1 \<noteq> T2 \<longrightarrow>
              (\<exists>s'. applyPatches plat [p] skipList None s1 = Ok s' \<and>
                   (\<forall>nm. nm \<noteq> ''frontyid'' \<longrightarrow>
                      getAttribute (nodes s' T1) nm = getAttribute (nodes s' T2) nm) \<and>
                   nodes s' T2 = nodes s T2))"
    if p: "mode p = Some ATTRIBUTES" "toReplace p = Some T1" "replacement p = Some T2" for p
  proof -
    have 1: "applyPatches plat [p] skipList (Some (\<lambda>q u. Ok (q\<lparr>toReplace := Some T\<rparr>, u))) s1 =
             applyPatches_attributes skipList (Some T) (Some T2) s1"
      using p by (cases "applyPatches_attributes skipList (Some T) (Some T2) s1")
                 (simp_all add: applyPatch_def)
    have 2: "applyPatches plat [p] skipList None s1 =
             applyPatches_attributes skipList (Some T1) (Some T2) s1"
      using p by (cases "applyPatches_attributes skipList (Some T1) (Some T2) s1")
                 (simp_all add: applyPatch_def)
    from app[OF T ne] app[OF T1] show ?thesis
      unfolding 1 2 by blast
  qed
  have B: "\<forall>nm. nm \<noteq> ''frontyid'' \<longrightarrow>
               getAttribute (nodes s T1) nm = getAttribute (nodes s T2) nm"
    if "\<forall>p\<in>set patches.
          \<not> (mode p = Some ATTRIBUTES \<and> toReplace p = Some T1 \<and> replacement p = Some T2)"
  proof -
    have "equalAttributes (nodes s T1) (nodes s T2)"
    proof (rule ccontr)
      assume "\<not> equalAttributes (nodes s T1) (nodes s T2)"
      with diff_elements[OF df T1 T2] have "attributesPatch T1 T2 \<in> set patches" by auto
      with that show False by (auto simp: attributesPatch_def)
    qed
    then show ?thesis
      using T1 T2 by (auto dest: equalAttributes_getAttribute)
  qed
  from A B show ?thesis by blast
qed


lemma attributeStore_nodes [simp]:
  "nodes attributeStore 10 =
     Element ''DIV'' [(''class'', ''a''), (''title'', ''x''), (''frontyid'', ''3'')] 30 None None"
  "nodes attributeStore 20 = Element ''DIV'' [(''class'', ''b''), (''id'', ''i'')] 40 None None"
  "nodes attributeStore 11 = Element ''P'' [(''frontyid'', ''4''), (''class'', ''a'')] 31 None None"
  "nodes attributeStore 21 = Element ''P'' [(''class'', ''a'')] 41 None None"
  "nodes attributeStore 15 =
     Element ''DIV'' [(''class'', ''a''), (''title'', ''x''), (''frontyid'', ''3'')] 35 None None"
  "lists attributeStore a = []"
  by (simp_all add: attributeStore_def)

lemma attributeStore_diff:
  "diff 0 None (Some 10) 20 attributeStore =
     Ok ([\<lparr>mode = Some ATTRIBUTES, toReplace = Some 10, replacement = Some 20, beforePos = None\<rparr>],
         attributeStore)"
  "diff 0 None (Some 11) 21 attributeStore = Ok ([], attributeStore)"
  by (simp_all add: diff.simps policyAction_def diffNode_def equalAttributes_def
        skipAttributes_def attributesPatch_def)

text \<open>
  In \<open>attributeStore\<close> the comparison of the elements 10 and 20 yields the \<^verbatim>\<open>attributes\<close> patch
  of the pair. Applied to the copy 15 of the element 10 it sets \<^verbatim>\<open>class\<close> and \<^verbatim>\<open>id\<close> and removes
  \<^verbatim>\<open>title\<close>. The comparison of the elements 11 and 21, which differ by \<^verbatim>\<open>frontyid\<close> only, yields
  no patch.
\<close>

theorem attributes_patch_roundtrip_witness:
  "diff 0 None (Some 10) 20 attributeStore =
     Ok ([\<lparr>mode = Some ATTRIBUTES, toReplace = Some 10, replacement = Some 20, beforePos = None\<rparr>],
         attributeStore) \<and>
   (\<exists>s'. applyPatches detached
            [\<lparr>mode = Some ATTRIBUTES, toReplace = Some 10, replacement = Some 20, beforePos = None\<rparr>]
            (Some [''frontyid'']) (Some (\<lambda>q u. Ok (q\<lparr>toReplace := Some 15\<rparr>, u))) attributeStore
          = Ok s' \<and>
      getAttribute (nodes s' 15) ''class'' = Some ''b'' \<and>
      getAttribute (nodes s' 15) ''id'' = Some ''i'' \<and>
      getAttribute (nodes s' 15) ''title'' = None) \<and>
   diff 0 None (Some 11) 21 attributeStore = Ok ([], attributeStore) \<and>
   getAttribute (nodes attributeStore 11) ''class'' = getAttribute (nodes attributeStore 21) ''class''"
proof -
  let ?p = "\<lparr>mode = Some ATTRIBUTES, toReplace = Some 10, replacement = Some 20, beforePos = None\<rparr>"
  have sk: "skipOk (Some [''frontyid''])" by (simp add: skipOk_def)
  have ne: "(15::nat) \<noteq> 20" by simp
  note A = attributes_patch_roundtrip[OF attributeStore_nodes(1) attributeStore_nodes(2) _ _
             attributeStore_nodes(5) ne sk attributeStore_diff(1), of detached]
  have "\<exists>s'. applyPatches detached [?p] (Some [''frontyid''])
                (Some (\<lambda>q u. Ok (q\<lparr>toReplace := Some 15\<rparr>, u))) attributeStore = Ok s' \<and>
           (\<forall>nm. nm \<noteq> ''frontyid'' \<longrightarrow>
              getAttribute (nodes s' 15) nm = getAttribute (nodes s' 20) nm) \<and>
           nodes s' 20 = nodes attributeStore 20"
    using A by simp
  then obtain s' where s': "applyPatches detached [?p] (Some [''frontyid''])
                (Some (\<lambda>q u. Ok (q\<lparr>toReplace := Some 15\<rparr>, u))) attributeStore = Ok s'"
    "\<forall>nm. nm \<noteq> ''frontyid'' \<longrightarrow> getAttribute (nodes s' 15) nm = getAttribute (nodes s' 20) nm"
    "nodes s' 20 = nodes attributeStore 20" by blast
  from s'(2)[rule_format, of "''class''"] s'(2)[rule_format, of "''id''"]
       s'(2)[rule_format, of "''title''"] s'(3)
  have g: "getAttribute (nodes s' 15) ''class'' = Some ''b''"
    "getAttribute (nodes s' 15) ''id'' = Some ''i''"
    "getAttribute (nodes s' 15) ''title'' = None"
    by simp_all
  have ne3: "(11::nat) \<noteq> 21" by simp
  note B = attributes_patch_roundtrip[OF attributeStore_nodes(3) attributeStore_nodes(4) _ _
             attributeStore_nodes(3) ne3 sk attributeStore_diff(2), of detached]
  have "\<forall>nm. nm \<noteq> ''frontyid'' \<longrightarrow>
          getAttribute (nodes attributeStore 11) nm = getAttribute (nodes attributeStore 21) nm"
    using B by simp
  then have c: "getAttribute (nodes attributeStore 11) ''class'' =
                getAttribute (nodes attributeStore 21) ''class''"
    by simp
  from attributeStore_diff s' g c show ?thesis by blast
qed

section \<open>Rendering\<close>

lemmas render_defs = render_def defaultParsingService_parse_def render_callback_def
  renderNewTree_diff_def createElement_def appendChild_def firstChild_def trim_def isSpace_def
  startsWithTr_def startsWithTdTh_def jsGet_def

lemma numberToString_digit [simp]: "numberToString 0 = ''0''" "numberToString (Suc 0) = ''1''"
  by (simp_all add: digitChar_def)

declare numberToString.simps [simp del]

text \<open>
  The first render of the component: the new tree (node 24, with the text node 26) is tagged,
  and it is the previous virtual tree of the next render.
\<close>

lemma greeting_first_render:
  "\<exists>s1. render (Suc (Suc (Suc fuel))) parseGreeting greeting pageDocument app pageStore =
          Ok (Some [replacePatch (Some 10) 24],
              app\<lparr>generatedIdsCounter := 2, previousVirtualDOM := Some 24\<rparr>, s1) \<and>
        nodes s1 24 = Element ''DIV'' [(''frontyid'', ''0''), (''id'', ''app'')] 25 None None \<and>
        nodes s1 26 = Text ''__FTN__:1#hi'' \<and>
        lists s1 25 = [Some 26] \<and> fresh s1 = 27"
  by (simp add: render_defs app_def pageStore_def pageDocument_def greeting_def parseGreeting_def
        diff.simps policyAction_def renderPolicy_def numeral_2_eq_2)

text \<open>
  The second render, from any store in which the previous virtual tree is as the first render
  left it: the renderer returns the same markup, the parser yields the element 31 with the text
  node 33, and the comparison yields a \<^verbatim>\<open>node-value\<close> patch for the text node.
\<close>

lemma greeting_second_render:
  assumes "nodes s1 24 = Element ''DIV'' [(''frontyid'', ''0''), (''id'', ''app'')] 25 None None"
      and "nodes s1 26 = Text ''__FTN__:1#hi''"
      and "lists s1 25 = [Some 26]" and "fresh s1 = 27"
  shows "\<exists>s2. render (Suc fuel) parseGreeting greeting pageDocument
               (app\<lparr>generatedIdsCounter := 2, previousVirtualDOM := Some 24\<rparr>) s1 =
             Ok (Some [nodeValuePatch 26 33],
                 app\<lparr>generatedIdsCounter := 2, previousVirtualDOM := Some 24\<rparr>, s2) \<and>
           nodeValue (nodes s2 26) = Some ''__FTN__:1#hi'' \<and>
           nodeValue (nodes s2 33) = Some ''hi''"
  using assms
  by (simp add: render_defs app_def pageDocument_def greeting_def parseGreeting_def
        diff.simps compareChildren.simps compareChildren_while.simps policyAction_def
        renderPolicy_def nodeId_def truthy_def inChildComponentIds_def propertyKey_def
        objectPrototypeKeys_def arrayFrom_def buildChildrenKeyIndex_def diffNode_def
        equalAttributes_def skipAttributes_def remainingChildren_def jsString_def
        nodeValuePatch_def)

text \<open>
  Claim C4. A started component renders \<^verbatim>\<open><div>hi</div>\<close> and is rendered again with the
  renderer returning the same markup. The claim expects an empty patch list. The patch list of
  the second render holds a \<^verbatim>\<open>node-value\<close> patch for the text node: the value of the text node
  of the previous virtual tree carries the marker that \<^verbatim>\<open>_tagTree\<close> put in front of it, the
  text node of the new tree does not, and \<^verbatim>\<open>diff\<close> compares the two values as they are.
\<close>

theorem identical_rerender_yields_node_value_patch:
  "\<exists>self1 s1 self2 s2.
     render (Suc (Suc (Suc fuel))) parseGreeting greeting pageDocument app pageStore =
       Ok (Some [replacePatch (Some 10) 24], self1, s1) \<and>
     render (Suc fuel') parseGreeting greeting pageDocument self1 s1 =
       Ok (Some [nodeValuePatch 26 33], self2, s2) \<and>
     nodeValue (nodes s2 26) = Some ''__FTN__:1#hi'' \<and>
     nodeValue (nodes s2 33) = Some ''hi''"
proof -
  from greeting_first_render[of fuel] obtain s1 where s1:
    "render (Suc (Suc (Suc fuel))) parseGreeting greeting pageDocument app pageStore =
       Ok (Some [replacePatch (Some 10) 24],
           app\<lparr>generatedIdsCounter := 2, previousVirtualDOM := Some 24\<rparr>, s1)"
    "nodes s1 24 = Element ''DIV'' [(''frontyid'', ''0''), (''id'', ''app'')] 25 None None"
    "nodes s1 26 = Text ''__FTN__:1#hi''" "lists s1 25 = [Some 26]" "fresh s1 = 27"
    by blast
  from greeting_second_render[OF s1(2-5), of fuel'] s1(1) show ?thesis by blast
qed

text \<open>
  Claim C3. The renderer returns the markup \<^verbatim>\<open><p>a</p><p>b</p>\<close>, which the parser turns into
  two root nodes (24 and 27). The claim expects the render call to fail and the page to be left
  as it was. The call returns normally: \<^verbatim>\<open>_defaultParsingService\<close> passes only the first child
  of the parsed markup to the callback, so that \<^verbatim>\<open>newTree\<close> has exactly one child when the
  number of its children is tested, and the test for more than one root cannot hold. The first
  root becomes the tree of the component, the second root is dropped, and the children of the
  component node of the page have been removed.
\<close>

theorem two_roots_render_returns:
  "\<exists>s1. render (Suc (Suc (Suc fuel))) parseTwoRoots twoRoots pageDocument app pageStore =
          Ok (Some [replacePatch (Some 10) 24],
              app\<lparr>generatedIdsCounter := 2, previousVirtualDOM := Some 24\<rparr>, s1) \<and>
        nodes s1 24 = Element ''P'' [(''frontyid'', ''0''), (''id'', ''app'')] 25 None None \<and>
        nodes s1 27 = Element ''P'' [] 28 None None \<and>
        lists pageStore 11 = [Some 12] \<and> lists s1 11 = []"
  by (simp add: render_defs app_def pageStore_def pageDocument_def twoRoots_def
        parseTwoRoots_def diff.simps policyAction_def renderPolicy_def numeral_2_eq_2)

end
